theory Spec2Isabelle
  imports Main "HOL-Library.AList" "HOL-Library.Word"
begin

section \<open>JavaScript values\<close>

text \<open>
  The values that flow through the request handlers: request body fields, document
  fields, storage keys. Nested objects and arrays as field values are outside the model: a
  document is a flat list of fields.

  A number is an IEEE 754 binary64 value, held as its 64 bits: the sign, 11 bits of
  exponent, 52 bits of fraction. NaN is a number (exponent all ones, fraction not zero),
  and so are the two infinities and the two zeros.
\<close>

type_synonym double = "64 word"

datatype jsval = JUndefined | JNull | JBool bool | JNum double | JStr string

text \<open>The bits below the sign: they grow with the absolute value of the number.\<close>

definition magnitude :: "double \<Rightarrow> nat" where
  "magnitude d = unat d mod 2 ^ 63"

definition is_nan :: "double \<Rightarrow> bool" where
  "is_nan d = (0x7FF0000000000000 < magnitude d)"

text \<open>
  The place of a number that is not NaN in the order of the numbers: the two zeros share
  one place, and the infinities are the ends.
\<close>

definition double_ord :: "double \<Rightarrow> int" where
  "double_ord d = (if unat d < 2 ^ 63 then int (magnitude d) else - int (magnitude d))"

text \<open>\<open>a > b\<close> on numbers: false when either is NaN.\<close>

definition double_gt :: "double \<Rightarrow> double \<Rightarrow> bool" where
  "double_gt a b = (\<not> is_nan a \<and> \<not> is_nan b \<and> double_ord b < double_ord a)"

definition double_nan :: double where
  "double_nan = 0x7FF8000000000000"

definition double_one :: double where
  "double_one = 0x3FF0000000000000"

text \<open>
  The two conversions between strings and numbers that the language defines and the
  handlers use through \<open>>\<close> and template literals: StringToNumber (decimal, hexadecimal,
  binary and octal literals, exponents, \<open>Infinity\<close>, white space around) and
  Number::toString (the shortest digits that read back as the number, exponent form from
  1e21). They are parameters: what is proved holds for every pair of such functions.
\<close>

record engine =
  string_to_number :: "string \<Rightarrow> double"
  number_to_string :: "double \<Rightarrow> string"

text \<open>ToBoolean: what \<open>if (v)\<close>, \<open>!v\<close>, \<open>a && b\<close> and \<open>a || b\<close> test.\<close>

fun js_truthy :: "jsval \<Rightarrow> bool" where
  "js_truthy JUndefined = False"
| "js_truthy JNull = False"
| "js_truthy (JBool b) = b"
| "js_truthy (JNum n) = (\<not> is_nan n \<and> magnitude n \<noteq> 0)"
| "js_truthy (JStr s) = (s \<noteq> [])"

text \<open>\<open>a || b\<close>: the left operand when it is truthy, the right one otherwise.\<close>

definition js_or :: "jsval \<Rightarrow> jsval \<Rightarrow> jsval" where
  "js_or a b = (if js_truthy a then a else b)"

text \<open>ToNumber.\<close>

fun to_number :: "engine \<Rightarrow> jsval \<Rightarrow> double" where
  "to_number eng JUndefined = double_nan"
| "to_number eng JNull = 0"
| "to_number eng (JBool b) = (if b then double_one else 0)"
| "to_number eng (JNum n) = n"
| "to_number eng (JStr s) = string_to_number eng s"

text \<open>
  A string is the list of its code units, each below 256 here (ASCII and Latin-1 text);
  two strings compare unit by unit.
\<close>

fun str_lt :: "string \<Rightarrow> string \<Rightarrow> bool" where
  "str_lt [] [] = False"
| "str_lt [] (d # ds) = True"
| "str_lt (c # cs) [] = False"
| "str_lt (c # cs) (d # ds) =
     ((of_char c :: nat) < of_char d \<or> (c = d \<and> str_lt cs ds))"

text \<open>
  \<open>a > b\<close>: two strings compare by code units; otherwise both sides go through
  ToNumber and compare as numbers.
\<close>

fun js_gt :: "engine \<Rightarrow> jsval \<Rightarrow> jsval \<Rightarrow> bool" where
  "js_gt eng (JStr s) (JStr t) = str_lt t s"
| "js_gt eng a b = double_gt (to_number eng a) (to_number eng b)"

text \<open>ToString, as a template literal \<open>${v}\<close> renders a value.\<close>

fun to_string :: "engine \<Rightarrow> jsval \<Rightarrow> string" where
  "to_string eng JUndefined = ''undefined''"
| "to_string eng JNull = ''null''"
| "to_string eng (JBool b) = (if b then ''true'' else ''false'')"
| "to_string eng (JNum n) = number_to_string eng n"
| "to_string eng (JStr s) = s"

text \<open>
  A document or a plain object: its fields in insertion order. Reading a missing field
  gives \<open>undefined\<close>; \<open>{...o, k: v}\<close> is \<open>AList.update k v o\<close>.
\<close>

type_synonym obj = "(string \<times> jsval) list"

definition obj_get :: "obj \<Rightarrow> string \<Rightarrow> jsval" where
  "obj_get ob k = (case map_of ob k of None \<Rightarrow> JUndefined | Some v \<Rightarrow> v)"

section \<open>The world the handlers run in\<close>

text \<open>A notification document, as the update handler builds it.\<close>

record notification =
  userId :: jsval
  ntype :: string
  message :: string
  relatedId :: jsval
  notificationSender :: jsval
  data_message :: string
  isRead :: bool

record event_settings =
  maxAttendeesPerEvent :: jsval

record settings =
  eventSettings :: "event_settings option"

text \<open>
  Modelled from the spec: the schemas (models/Event.js, Participation.js, Notification.js,
  Settings.js, User.js) are not among the sources. The collections of the database hold
  documents as lists of fields; identifiers are values compared by equality. The Settings
  collection is read with \<open>findOne()\<close>: \<open>settings_doc\<close> is its result.
\<close>

record db =
  events :: "obj list"
  participations :: "obj list"
  notifications :: "notification list"
  users :: "obj list"
  settings_doc :: "settings option"

datatype tx_state = NoTx | TxActive | TxCommitted | TxAborted

text \<open>What a handler does to the outside, in the order it does it.\<close>

datatype effect =
    StartTransaction
  | CommitTransaction
  | AbortTransaction
  | EndSession
  | S3Put string
  | S3Delete string bool
  | S3Sign string
  | CloudinaryPost
  | Unlink string
  | LogActivity jsval string string jsval jsval

text \<open>
  \<open>db\<close> is the committed database; \<open>staged\<close> is what the operations of the open
  session read and write, which a commit makes the database and an abort throws away.
  \<open>bucket\<close> holds the keys stored in the S3 bucket, \<open>files\<close> the paths of the local
  temporary files.
\<close>

record world =
  db :: db
  staged :: db
  tx :: tx_state
  bucket :: "string list"
  files :: "string list"
  trace :: "effect list"

record upload_file =
  path :: "string option"
  mimetype :: string
  buffer :: string

text \<open>The calls into the database driver, each of which can raise.\<close>

datatype dbcall =
    FindEvent
  | FindEvents
  | FindJoinedEvents
  | FindSettings
  | FindParticipations
  | UpdateEvent
  | SaveEvent
  | UpdateParticipations
  | CreateNotifications
  | Commit

text \<open>
  What the handlers do not decide themselves, for one request: the process environment,
  the random file name, how the S3 client, the presigner, the Cloudinary endpoint and the
  database driver answer (\<open>Some e\<close> or \<open>Inl e\<close>: the call raises an error with message
  \<open>e\<close>), and the two helpers called from other modules, \<open>detectEventChanges\<close>
  (utils/eventHelpers.js) and \<open>logActivity\<close> (middleware/logActivity.js), taken as
  parameters. \<open>db_error UpdateEvent\<close> and \<open>db_error SaveEvent\<close> include the validators of
  the Event schema, \<open>db_error CreateNotifications\<close> those of the Notification schema.
  \<open>engine\<close> holds the conversions between strings and numbers of the JavaScript engine
  that runs the handlers.
\<close>

record env =
  STORAGE_TYPE :: "string option"
  randomBytes_hex :: string
  s3_put_error :: "string \<Rightarrow> string option"
  s3_delete_error :: "string \<Rightarrow> string option"
  getSignedUrl :: "string \<Rightarrow> nat \<Rightarrow> string + string"
  cloudinary_response :: "upload_file \<Rightarrow> string + obj"
  db_error :: "dbcall \<Rightarrow> string option"
  detectEventChanges :: "obj \<times> obj option \<Rightarrow> obj \<Rightarrow> bool"
  logActivity_error :: "string option"
  new_id :: jsval
  engine :: engine

section \<open>Computations that can raise\<close>

text \<open>
  An asynchronous function is a function from the world to a result and the world after
  it; the result is \<open>Inl e\<close> when it raises an error with message \<open>e\<close>.
\<close>

type_synonym 'a io = "world \<Rightarrow> (string + 'a) \<times> world"

definition ret :: "'a \<Rightarrow> 'a io" where
  "ret a w = (Inr a, w)"

definition throw :: "string \<Rightarrow> 'a io" where
  "throw e w = (Inl e, w)"

definition bind :: "'a io \<Rightarrow> ('a \<Rightarrow> 'b io) \<Rightarrow> 'b io" where
  "bind m f w = (case m w of (Inl e, w') \<Rightarrow> (Inl e, w') | (Inr a, w') \<Rightarrow> f a w')"

definition try_catch :: "'a io \<Rightarrow> (string \<Rightarrow> 'a io) \<Rightarrow> 'a io" where
  "try_catch m h w = (case m w of (Inl e, w') \<Rightarrow> h e w' | (Inr a, w') \<Rightarrow> (Inr a, w'))"

text \<open>\<open>try { m } finally { f }\<close>: \<open>f\<close> runs whatever \<open>m\<close> did, and the result is that of \<open>m\<close>.\<close>

definition try_finally :: "'a io \<Rightarrow> unit io \<Rightarrow> 'a io" where
  "try_finally m f w =
     (case m w of
        (r, w') \<Rightarrow> (case f w' of (Inl e, w'') \<Rightarrow> (Inl e, w'') | (Inr u, w'') \<Rightarrow> (r, w'')))"

definition emit :: "effect \<Rightarrow> unit io" where
  "emit e w = (Inr (), w\<lparr>trace := trace w @ [e]\<rparr>)"

section \<open>utils/s3Helper.js\<close>

definition randomImageName :: "env \<Rightarrow> string" where
  "randomImageName env = randomBytes_hex env"

text \<open>\<open>s3Client.send\<close> of a PutObjectCommand and of a DeleteObjectCommand.\<close>

definition s3_send_put :: "env \<Rightarrow> string \<Rightarrow> unit io" where
  "s3_send_put env key w =
     (case s3_put_error env key of
        Some e \<Rightarrow> (Inl e, w)
      | None \<Rightarrow> (Inr (), w\<lparr>bucket := key # removeAll key (bucket w), trace := trace w @ [S3Put key]\<rparr>))"

definition s3_send_delete :: "env \<Rightarrow> string \<Rightarrow> unit io" where
  "s3_send_delete env key w =
     (case s3_delete_error env key of
        Some e \<Rightarrow> (Inl e, w\<lparr>trace := trace w @ [S3Delete key False]\<rparr>)
      | None \<Rightarrow> (Inr (), w\<lparr>bucket := removeAll key (bucket w), trace := trace w @ [S3Delete key True]\<rparr>))"

definition uploadToS3 :: "env \<Rightarrow> string \<Rightarrow> string \<Rightarrow> jsval io" where
  "uploadToS3 env fileBuffer mime =
     (let imageName = randomImageName env in
      bind (s3_send_put env (''uploads/'' @ imageName))
        (\<lambda>_. ret (JStr (''uploads/'' @ imageName))))"

definition getSignedUrlForKey :: "env \<Rightarrow> jsval \<Rightarrow> nat option \<Rightarrow> jsval io" where
  "getSignedUrlForKey env key expiresIn_arg =
     (let expiresIn = (case expiresIn_arg of None \<Rightarrow> 3600 | Some n \<Rightarrow> n) in
      if \<not> js_truthy key then ret JNull
      else
        try_catch
          (bind (emit (S3Sign (to_string (engine env) key)))
             (\<lambda>_. case getSignedUrl env (to_string (engine env) key) expiresIn of
                     Inl e \<Rightarrow> throw e
                   | Inr url \<Rightarrow> ret (JStr url)))
          (\<lambda>error. ret JNull))"

definition deleteFromS3 :: "env \<Rightarrow> jsval \<Rightarrow> bool io" where
  "deleteFromS3 env key =
     (if \<not> js_truthy key then ret False
      else
        try_catch
          (bind (s3_send_delete env (to_string (engine env) key)) (\<lambda>_. ret True))
          (\<lambda>error. ret False))"

section \<open>The database, the session and the file system\<close>

definition db_call :: "env \<Rightarrow> dbcall \<Rightarrow> unit io" where
  "db_call env c = (case db_error env c of Some e \<Rightarrow> throw e | None \<Rightarrow> ret ())"

text \<open>A document with its \<open>organizer\<close> populated: the organizer's user document, or null.\<close>

type_synonym pevent = "obj \<times> obj option"

definition populate :: "db \<Rightarrow> obj \<Rightarrow> pevent" where
  "populate d ev = (ev, find (\<lambda>u. obj_get u ''_id'' = obj_get ev ''organizer'') (users d))"

definition has_id :: "string \<Rightarrow> obj \<Rightarrow> bool" where
  "has_id i ev = (obj_get ev ''_id'' = JStr i)"

definition startTransaction :: "unit io" where
  "startTransaction w = (Inr (), w\<lparr>staged := db w, tx := TxActive, trace := trace w @ [StartTransaction]\<rparr>)"

text \<open>
  Aborting throws the staged writes away. Neither the start nor the abort of a
  transaction raises here; a commit can.
\<close>

definition abortTransaction :: "unit io" where
  "abortTransaction w = (Inr (), w\<lparr>staged := db w, tx := TxAborted, trace := trace w @ [AbortTransaction]\<rparr>)"

definition commitTransaction :: "env \<Rightarrow> unit io" where
  "commitTransaction env =
     bind (db_call env Commit)
       (\<lambda>_ w. (Inr (), w\<lparr>db := staged w, tx := TxCommitted, trace := trace w @ [CommitTransaction]\<rparr>))"

definition endSession :: "unit io" where
  "endSession = emit EndSession"

text \<open>\<open>Event.findById(id).session(session).populate('organizer')\<close>\<close>

definition Event_findById_session :: "env \<Rightarrow> string \<Rightarrow> pevent option io" where
  "Event_findById_session env i =
     bind (db_call env FindEvent)
       (\<lambda>_ w. (Inr (map_option (populate (staged w)) (find (has_id i) (events (staged w)))), w))"

text \<open>\<open>Event.findById(id).populate('organizer')\<close>, outside any session.\<close>

definition Event_findById :: "env \<Rightarrow> jsval \<Rightarrow> pevent option io" where
  "Event_findById env i =
     bind (db_call env FindEvent)
       (\<lambda>_ w. (Inr (map_option (populate (db w)) (find (\<lambda>ev. obj_get ev ''_id'' = i) (events (db w)))), w))"

definition Settings_findOne :: "env \<Rightarrow> settings option io" where
  "Settings_findOne env = bind (db_call env FindSettings) (\<lambda>_ w. (Inr (settings_doc (db w)), w))"

text \<open>
  Modelled from the spec: models/Event.js is not among the sources. An update sets each
  field of the update object on the stored document; a field whose value is undefined is
  left out of the update, and setting \<open>_id\<close> to another value is refused by the database.
  The schema's validators are the \<open>db_error\<close> of the call. A field is read at its first
  occurrence in the list (\<open>obj_get\<close>), so a repeated key of the update counts once.
\<close>

definition apply_set :: "obj \<Rightarrow> obj \<Rightarrow> obj" where
  "apply_set update doc =
     fold (\<lambda>(k, v) d. if v = JUndefined then d else AList.update k v d) (AList.clearjunk update) doc"

fun update_first :: "('a \<Rightarrow> bool) \<Rightarrow> ('a \<Rightarrow> 'a) \<Rightarrow> 'a list \<Rightarrow> 'a list" where
  "update_first P f [] = []"
| "update_first P f (x # xs) = (if P x then f x # xs else x # update_first P f xs)"

definition changes_id :: "obj \<Rightarrow> obj \<Rightarrow> bool" where
  "changes_id update doc =
     (obj_get update ''_id'' \<noteq> JUndefined \<and> obj_get update ''_id'' \<noteq> obj_get doc ''_id'')"

text \<open>
  \<open>Event.findByIdAndUpdate(id, update, {new: true, runValidators: true, session})
  .populate('organizer')\<close>: the updated document, or null when there is none with this id.
\<close>

definition Event_findByIdAndUpdate_session :: "env \<Rightarrow> string \<Rightarrow> obj \<Rightarrow> pevent option io" where
  "Event_findByIdAndUpdate_session env i update =
     bind (db_call env UpdateEvent)
       (\<lambda>_ w. case find (has_id i) (events (staged w)) of
                 None \<Rightarrow> (Inr None, w)
               | Some old \<Rightarrow>
                   if changes_id update old then (Inl ''immutable field _id'', w)
                   else
                     let d = (staged w)\<lparr>events := update_first (has_id i) (apply_set update) (events (staged w))\<rparr>
                     in (Inr (Some (populate d (apply_set update old))), w\<lparr>staged := d\<rparr>))"


text \<open>\<open>Participation.find({event: id, status: 'approved'}).session(session)\<close>\<close>

definition approved_for :: "string \<Rightarrow> obj \<Rightarrow> bool" where
  "approved_for i p = (obj_get p ''event'' = JStr i \<and> obj_get p ''status'' = JStr ''approved'')"

definition Participation_find_session :: "env \<Rightarrow> string \<Rightarrow> obj list io" where
  "Participation_find_session env i =
     bind (db_call env FindParticipations)
       (\<lambda>_ w. (Inr (filter (approved_for i) (participations (staged w))), w))"

text \<open>\<open>Notification.create(docs, {session, ordered: true})\<close>\<close>

definition Notification_create_session :: "env \<Rightarrow> notification list \<Rightarrow> unit io" where
  "Notification_create_session env docs =
     bind (db_call env CreateNotifications)
       (\<lambda>_ w. (Inr (), w\<lparr>staged := (staged w)\<lparr>notifications := notifications (staged w) @ docs\<rparr>\<rparr>))"


definition logActivity :: "env \<Rightarrow> jsval \<Rightarrow> string \<Rightarrow> string \<Rightarrow> jsval \<Rightarrow> jsval \<Rightarrow> unit io" where
  "logActivity env actor verb entityType entityId eventTitle =
     (case logActivity_error env of
        Some e \<Rightarrow> throw e
      | None \<Rightarrow> emit (LogActivity actor verb entityType entityId eventTitle))"

text \<open>\<open>fs.unlinkSync(path)\<close> and \<open>fs.existsSync(path)\<close>\<close>

definition unlinkSync :: "string option \<Rightarrow> unit io" where
  "unlinkSync p w =
     (case p of
        None \<Rightarrow> (Inl ''The path argument must be of type string'', w)
      | Some q \<Rightarrow>
          if q \<in> set (files w)
          then (Inr (), w\<lparr>files := removeAll q (files w), trace := trace w @ [Unlink q]\<rparr>)
          else (Inl ''ENOENT: no such file or directory'', w))"

definition existsSync :: "string \<Rightarrow> world \<Rightarrow> bool" where
  "existsSync q w = (q \<in> set (files w))"

section \<open>The event controller\<close>

record request =
  params_eventId :: string
  query :: obj
  body :: obj
  req_file :: "upload_file option"
  req_userId :: jsval

datatype json =
    JsonError string
  | JsonErrorMessage string string
  | JsonMessage string
  | JsonEvent pevent
  | JsonEvents "pevent list"

record response =
  status_code :: nat
  json_body :: json

text \<open>\<open>process.env.STORAGE_TYPE || 'cloudinary'\<close>\<close>

definition storageType :: "env \<Rightarrow> string" where
  "storageType env =
     (case STORAGE_TYPE env of None \<Rightarrow> ''cloudinary'' | Some s \<Rightarrow> if s = [] then ''cloudinary'' else s)"

text \<open>
  The upload to Cloudinary: reading the file, posting it and parsing the answer are one
  call that raises or gives the parsed response, of which \<open>secure_url\<close> is returned.
\<close>

definition uploadToCloudinary :: "env \<Rightarrow> upload_file \<Rightarrow> jsval io" where
  "uploadToCloudinary env f =
     (case cloudinary_response env f of
        Inl e \<Rightarrow> throw e
      | Inr response \<Rightarrow> bind (emit CloudinaryPost) (\<lambda>_. ret (obj_get response ''secure_url'')))"

definition deleteOldImage :: "env \<Rightarrow> jsval \<Rightarrow> unit io" where
  "deleteOldImage env imageKey =
     (if \<not> js_truthy imageKey then ret ()
      else if storageType env = ''s3'' then bind (deleteFromS3 env imageKey) (\<lambda>_. ret ())
      else ret ())"

text \<open>The body of the loop of \<open>addSignedUrlsToEvents\<close>, the loop, and the function.\<close>

definition sign_event :: "env \<Rightarrow> pevent \<Rightarrow> pevent io" where
  "sign_event env event =
     (if js_truthy (obj_get (fst event) ''image'')
      then bind (getSignedUrlForKey env (obj_get (fst event) ''image'') None)
             (\<lambda>url. ret (AList.update ''imageUrl'' url (fst event), snd event))
      else ret event)"



text \<open>The same function called with one document instead of an array.\<close>

definition addSignedUrlsToEvent :: "env \<Rightarrow> pevent \<Rightarrow> pevent io" where
  "addSignedUrlsToEvent env event =
     (if storageType env \<noteq> ''s3'' then ret event else sign_event env event)"

text \<open>The upload of the request's file, as \<open>createEvent\<close> and \<open>updateEvent\<close> both do it.\<close>

definition upload_image :: "env \<Rightarrow> upload_file \<Rightarrow> jsval io" where
  "upload_image env f =
     (if storageType env = ''s3'' then uploadToS3 env (buffer f) (mimetype f)
      else bind (uploadToCloudinary env f) (\<lambda>imageKey. bind (unlinkSync (path f)) (\<lambda>_. ret imageKey)))"

text \<open>
  The clean-up of the catch blocks:
  \<open>if (req.file?.path && fs.existsSync(req.file.path)) fs.unlinkSync(req.file.path)\<close>
\<close>

definition unlink_temp :: "request \<Rightarrow> unit io" where
  "unlink_temp req w =
     (case req_file req of
        None \<Rightarrow> (Inr (), w)
      | Some f \<Rightarrow>
          (case path f of
             None \<Rightarrow> (Inr (), w)
           | Some q \<Rightarrow> if q \<noteq> [] \<and> existsSync q w then unlinkSync (Some q) w else (Inr (), w)))"

subsection \<open>PUT /events/:eventId\<close>

text \<open>Lines 314 to 328: the new media, and the deletion of the old one.\<close>

definition replace_media :: "env \<Rightarrow> request \<Rightarrow> pevent \<Rightarrow> jsval io" where
  "replace_media env req existingEvent =
     (case req_file req of
        None \<Rightarrow> ret JNull
      | Some f \<Rightarrow>
          bind (upload_image env f)
            (\<lambda>imageKey.
               bind (if js_truthy (obj_get (fst existingEvent) ''image'')
                     then deleteOldImage env (obj_get (fst existingEvent) ''image'')
                     else ret ())
                 (\<lambda>_. ret imageKey)))"

definition quoted :: "string \<Rightarrow> string" where
  "quoted s = [CHR 0x22] @ s @ [CHR 0x22]"

definition indent :: string where
  "indent = replicate 14 (CHR '' '')"

text \<open>Lines 373 to 391: the notification for one participation.\<close>

definition build_notification :: "engine \<Rightarrow> obj \<Rightarrow> obj \<Rightarrow> jsval \<Rightarrow> obj \<Rightarrow> notification" where
  "build_notification eng updatedEvent organizer organizerId participation =
     \<lparr> userId = obj_get participation ''user'',
       ntype = ''eventUpdate'',
       message = ''Event '' @ quoted (to_string eng (obj_get updatedEvent ''title'')) @ '' has been updated'',
       relatedId = obj_get participation ''_id'',
       notificationSender = organizerId,
       data_message =
         ''The event '' @ quoted (to_string eng (obj_get updatedEvent ''title''))
           @ '' has been updated. Please kindly check the new details.'' @ [CHR 0x0A]
           @ indent @ ''We look forward to your participation.'' @ [CHR 0x0A]
           @ indent @ ''  '' @ [CHR 0x0A]
           @ indent @ ''Regards,'' @ [CHR 0x0A]
           @ indent @ ''  '' @ [CHR 0x0A]
           @ indent @ to_string eng (obj_get organizer ''firstName'') @ '' ''
           @ to_string eng (obj_get organizer ''lastName'') @ '','' @ [CHR 0x0A]
           @ indent @ to_string eng (obj_get organizer ''email''),
       isRead = False \<rparr>"

text \<open>Lines 366 to 395: the notifications of the approved participants.\<close>

definition notify_participants :: "env \<Rightarrow> request \<Rightarrow> bool \<Rightarrow> pevent \<Rightarrow> jsval \<Rightarrow> unit io" where
  "notify_participants env req changes updatedEvent organizerId =
     (if changes then
        bind (Participation_find_session env (params_eventId req))
          (\<lambda>approved.
             if length approved > 0 then
               (case snd updatedEvent of
                  None \<Rightarrow> throw ''Cannot read properties of null''
                | Some organizer \<Rightarrow>
                    Notification_create_session env
                      (map (build_notification (engine env) (fst updatedEvent) organizer organizerId) approved))
             else ret ())
      else ret ())"

text \<open>Lines 350 to 402: from the change detection to the response.\<close>

definition persist_and_commit :: "env \<Rightarrow> request \<Rightarrow> pevent \<Rightarrow> jsval \<Rightarrow> obj \<Rightarrow> response io" where
  "persist_and_commit env req existingEvent organizerId updateData =
     (let changes = detectEventChanges env existingEvent updateData in
      bind (Event_findByIdAndUpdate_session env (params_eventId req) updateData)
        (\<lambda>updated.
           case updated of
             None \<Rightarrow> throw ''Cannot read properties of null''
           | Some updatedEvent \<Rightarrow>
               bind (logActivity env (req_userId req) ''updated'' ''event''
                       (js_or (obj_get (fst updatedEvent) ''_id'') (obj_get (fst updatedEvent) ''id''))
                       (obj_get (fst updatedEvent) ''title''))
                 (\<lambda>_. bind (notify_participants env req changes updatedEvent organizerId)
                 (\<lambda>_. bind (commitTransaction env)
                 (\<lambda>_. bind (addSignedUrlsToEvent env updatedEvent)
                 (\<lambda>signed. ret \<lparr> status_code = 200, json_body = JsonEvent signed \<rparr>))))))"

text \<open>Lines 332 to 335: \<open>{...req.body, image: imageKey || existingEvent.image}\<close>\<close>

definition updateData_of :: "request \<Rightarrow> pevent \<Rightarrow> jsval \<Rightarrow> obj" where
  "updateData_of req existingEvent imageKey =
     AList.update ''image'' (js_or imageKey (obj_get (fst existingEvent) ''image'')) (body req)"

text \<open>Lines 330 to 402: from the organizer and the capacity check to the response.\<close>

definition validate_and_persist :: "env \<Rightarrow> request \<Rightarrow> pevent \<Rightarrow> jsval \<Rightarrow> response io" where
  "validate_and_persist env req existingEvent imageKey =
     (case snd existingEvent of
        None \<Rightarrow> throw ''Cannot read properties of null''
      | Some organizer \<Rightarrow>
          (let organizerId = obj_get organizer ''_id'';
               updateData = updateData_of req existingEvent imageKey
           in bind (Settings_findOne env)
                (\<lambda>found.
                   case Option.bind found eventSettings of
                     None \<Rightarrow>
                       bind abortTransaction
                         (\<lambda>_. ret \<lparr> status_code = 500,
                                     json_body = JsonError ''Event settings not configured'' \<rparr>)
                   | Some es \<Rightarrow>
                       (let maxAllowed = maxAttendeesPerEvent es in
                        if js_truthy (obj_get updateData ''maxAttendees'')
                           \<and> js_gt (engine env) (obj_get updateData ''maxAttendees'') maxAllowed
                        then
                          bind abortTransaction
                            (\<lambda>_. ret \<lparr> status_code = 400,
                                        json_body = JsonMessage
                                          (''System limit exceeded. Current maximum event capacity: ''
                                             @ to_string (engine env) maxAllowed) \<rparr>)
                        else persist_and_commit env req existingEvent organizerId updateData))))"

text \<open>The try block of \<open>updateEvent\<close>.\<close>

definition updateEvent_try :: "env \<Rightarrow> request \<Rightarrow> response io" where
  "updateEvent_try env req =
     bind (Event_findById_session env (params_eventId req))
       (\<lambda>existing.
          case existing of
            None \<Rightarrow>
              bind abortTransaction
                (\<lambda>_. ret \<lparr> status_code = 404, json_body = JsonError ''Event not found'' \<rparr>)
          | Some existingEvent \<Rightarrow>
              bind (replace_media env req existingEvent)
                (validate_and_persist env req existingEvent))"

text \<open>
  The handler: the session and the transaction are started, the try block runs, a raised
  error is answered by the catch block, and the session is ended in every case.
\<close>

definition updateEvent :: "env \<Rightarrow> request \<Rightarrow> response io" where
  "updateEvent env req =
     bind startTransaction
       (\<lambda>_. try_finally
          (try_catch (updateEvent_try env req)
             (\<lambda>err. bind abortTransaction
                (\<lambda>_. bind (unlink_temp req)
                (\<lambda>_. ret \<lparr> status_code = 400,
                            json_body = JsonErrorMessage ''Failed to update event'' err \<rparr>))))
          endSession)"

subsection \<open>POST /events\<close>

text \<open>
  Modelled from the spec: models/Event.js is not among the sources. \<open>new Event(fields)\<close>
  is the document of these fields, with a fresh \<open>_id\<close> unless the fields give one;
  \<open>save\<close> inserts it, and the database refuses an \<open>_id\<close> it already holds.
\<close>

definition new_Event :: "env \<Rightarrow> obj \<Rightarrow> obj" where
  "new_Event env given =
     (if obj_get given ''_id'' = JUndefined then AList.update ''_id'' (new_id env) given else given)"

definition Event_save :: "env \<Rightarrow> obj \<Rightarrow> unit io" where
  "Event_save env doc =
     bind (db_call env SaveEvent)
       (\<lambda>_ w. if obj_get doc ''_id'' \<in> set (map (\<lambda>ev. obj_get ev ''_id'') (events (db w)))
               then (Inl ''E11000 duplicate key error'', w)
               else (Inr (), w\<lparr>db := (db w)\<lparr>events := events (db w) @ [doc]\<rparr>\<rparr>))"

text \<open>Lines 271 to 286: the new event is saved, logged, read back and sent.\<close>

definition save_and_respond :: "env \<Rightarrow> request \<Rightarrow> obj \<Rightarrow> response io" where
  "save_and_respond env req newEvent =
     bind (Event_save env newEvent)
       (\<lambda>_. bind (logActivity env (req_userId req) ''created'' ''event''
                    (obj_get newEvent ''_id'') (obj_get newEvent ''title''))
       (\<lambda>_. bind (Event_findById env (obj_get newEvent ''_id''))
       (\<lambda>found_event.
          case found_event of
            None \<Rightarrow> throw ''Cannot read properties of null''
          | Some populatedEvent \<Rightarrow>
              bind (addSignedUrlsToEvent env populatedEvent)
                (\<lambda>signed. ret \<lparr> status_code = 201, json_body = JsonEvent signed \<rparr>))))"

text \<open>Lines 253 to 269: the settings, the capacity check and the new event.\<close>

definition validate_and_save :: "env \<Rightarrow> request \<Rightarrow> jsval \<Rightarrow> response io" where
  "validate_and_save env req imageKey =
     bind (Settings_findOne env)
       (\<lambda>found.
          case Option.bind found eventSettings of
            None \<Rightarrow> ret \<lparr> status_code = 500, json_body = JsonError ''Event settings not configured'' \<rparr>
          | Some es \<Rightarrow>
              (let maxAllowed = maxAttendeesPerEvent es in
               if js_truthy (obj_get (body req) ''maxAttendees'')
                  \<and> js_gt (engine env) (obj_get (body req) ''maxAttendees'') maxAllowed
               then ret \<lparr> status_code = 500,
                          json_body = JsonMessage
                            (''Maximum capacity exceeded. System limit: '' @ to_string (engine env) maxAllowed) \<rparr>
               else
                 save_and_respond env req
                   (new_Event env
                      (AList.update ''image'' imageKey
                        (AList.update ''maxAttendees''
                          (js_or (obj_get (body req) ''maxAttendees'') maxAllowed)
                          (AList.update ''organizer'' (req_userId req) (body req)))))))"

text \<open>The try block of \<open>createEvent\<close>.\<close>

definition createEvent_try :: "env \<Rightarrow> request \<Rightarrow> response io" where
  "createEvent_try env req =
     bind (case req_file req of None \<Rightarrow> ret JNull | Some f \<Rightarrow> upload_image env f)
       (validate_and_save env req)"

definition createEvent :: "env \<Rightarrow> request \<Rightarrow> response io" where
  "createEvent env req =
     try_catch (createEvent_try env req)
       (\<lambda>err. bind (unlink_temp req)
          (\<lambda>_. ret \<lparr> status_code = 400, json_body = JsonErrorMessage ''Failed to create event'' err \<rparr>))"

subsection \<open>DELETE /events/:eventId\<close>


subsection \<open>GET /events\<close>






section \<open>Notions the properties are stated with\<close>

text \<open>The event a request names, as the database \<open>d\<close> holds it, its organizer populated.\<close>

definition existing_event :: "request \<Rightarrow> db \<Rightarrow> pevent option" where
  "existing_event req d = map_option (populate d) (find (has_id (params_eventId req)) (events d))"

text \<open>The approved participations of that event.\<close>

definition approved_participations :: "request \<Rightarrow> db \<Rightarrow> obj list" where
  "approved_participations req d = filter (approved_for (params_eventId req)) (participations d)"

text \<open>The key the media step of an update gives when it does not raise.\<close>

definition uploaded_key :: "env \<Rightarrow> request \<Rightarrow> jsval" where
  "uploaded_key env req =
     (case req_file req of
        None \<Rightarrow> JNull
      | Some f \<Rightarrow>
          if storageType env = ''s3'' then JStr (''uploads/'' @ randomImageName env)
          else (case cloudinary_response env f of Inl e \<Rightarrow> JNull | Inr response \<Rightarrow> obj_get response ''secure_url''))"

text \<open>
  The upload of the request's file, if it has one, does not raise; \<open>present\<close> are the
  local files.
\<close>

definition upload_succeeds :: "env \<Rightarrow> request \<Rightarrow> string list \<Rightarrow> bool" where
  "upload_succeeds env req present =
     (case req_file req of
        None \<Rightarrow> True
      | Some f \<Rightarrow>
          if storageType env = ''s3'' then s3_put_error env (''uploads/'' @ randomImageName env) = None
          else (case cloudinary_response env f of
                  Inl e \<Rightarrow> False
                | Inr response \<Rightarrow> (case path f of None \<Rightarrow> False | Some q \<Rightarrow> q \<in> set present)))"

text \<open>The update object an update request leads to.\<close>

definition proposed_update :: "env \<Rightarrow> request \<Rightarrow> db \<Rightarrow> obj" where
  "proposed_update env req d =
     (case existing_event req d of
        None \<Rightarrow> []
      | Some existingEvent \<Rightarrow> updateData_of req existingEvent (uploaded_key env req))"

text \<open>What the change detector answers for an update request.\<close>

definition detected :: "env \<Rightarrow> request \<Rightarrow> db \<Rightarrow> bool" where
  "detected env req d =
     (case existing_event req d of
        None \<Rightarrow> False
      | Some existingEvent \<Rightarrow> detectEventChanges env existingEvent (proposed_update env req d))"

text \<open>The event after the update, its organizer populated.\<close>

definition updated_event :: "env \<Rightarrow> request \<Rightarrow> db \<Rightarrow> pevent option" where
  "updated_event env req d =
     map_option (\<lambda>existingEvent. populate d (apply_set (proposed_update env req d) (fst existingEvent)))
       (existing_event req d)"

text \<open>One notification for each approved participation of the event.\<close>

definition fan_out :: "env \<Rightarrow> request \<Rightarrow> db \<Rightarrow> notification list" where
  "fan_out env req d =
     (case (existing_event req d, updated_event env req d) of
        (Some (ev, Some organizer), Some (updatedEvent, Some organizer')) \<Rightarrow>
          map (build_notification (engine env) updatedEvent organizer' (obj_get organizer ''_id''))
            (approved_participations req d)
      | _ \<Rightarrow> [])"

text \<open>The database with the event updated and, after a detected change, the notifications added.\<close>

definition committed_db :: "env \<Rightarrow> request \<Rightarrow> db \<Rightarrow> db" where
  "committed_db env req d =
     d\<lparr>events := update_first (has_id (params_eventId req)) (apply_set (proposed_update env req d)) (events d),
       notifications := notifications d @ (if detected env req d then fan_out env req d else [])\<rparr>"

text \<open>The proposed \<open>maxAttendees\<close> is over the ceiling, as a handler tests it.\<close>

definition over_ceiling :: "engine \<Rightarrow> jsval \<Rightarrow> jsval \<Rightarrow> bool" where
  "over_ceiling eng requested maxAllowed = (js_truthy requested \<and> js_gt eng requested maxAllowed)"

text \<open>The ceiling the settings hold, when they are configured.\<close>

definition ceiling_of :: "db \<Rightarrow> jsval option" where
  "ceiling_of d = map_option maxAttendeesPerEvent (Option.bind (settings_doc d) eventSettings)"

text \<open>
  No step of an update request fails: no call raises, the event exists and has an
  organizer, the settings are configured, the capacity is within the ceiling, and where
  notifications are built the updated event has an organizer.
\<close>

definition update_succeeds :: "env \<Rightarrow> request \<Rightarrow> db \<Rightarrow> string list \<Rightarrow> bool" where
  "update_succeeds env req d present =
     (db_error env FindEvent = None \<and> db_error env FindSettings = None \<and>
      db_error env UpdateEvent = None \<and> db_error env Commit = None \<and>
      logActivity_error env = None \<and> upload_succeeds env req present \<and>
      (case existing_event req d of
         Some (ev, Some organizer) \<Rightarrow>
           (case ceiling_of d of
              None \<Rightarrow> False
            | Some c \<Rightarrow>
                \<not> over_ceiling (engine env) (obj_get (body req) ''maxAttendees'') c \<and>
                \<not> changes_id (proposed_update env req d) ev \<and>
                (if detected env req d then
                   db_error env FindParticipations = None \<and>
                   (if approved_participations req d \<noteq> [] then
                      db_error env CreateNotifications = None \<and>
                      (case updated_event env req d of
                         Some (updatedEvent, Some organizer') \<Rightarrow> True
                       | _ \<Rightarrow> False)
                    else True)
                 else True))
       | _ \<Rightarrow> False))"

text \<open>The effects of a run from \<open>w\<close> to \<open>w'\<close>, and their parts before and from the commit.\<close>

definition effects_of :: "world \<Rightarrow> world \<Rightarrow> effect list" where
  "effects_of w w' = drop (length (trace w)) (trace w')"

definition not_commit :: "effect \<Rightarrow> bool" where
  "not_commit e = (e \<noteq> CommitTransaction)"

definition before_commit :: "effect list \<Rightarrow> effect list" where
  "before_commit es = takeWhile not_commit es"

definition after_commit :: "effect list \<Rightarrow> effect list" where
  "after_commit es = dropWhile not_commit es"

fun is_delete :: "effect \<Rightarrow> bool" where
  "is_delete (S3Delete k b) = True"
| "is_delete e = False"

text \<open>The document a create request stores under the ceiling \<open>maxAllowed\<close>.\<close>

definition created_event :: "env \<Rightarrow> request \<Rightarrow> jsval \<Rightarrow> obj" where
  "created_event env req maxAllowed =
     new_Event env
       (AList.update ''image'' (uploaded_key env req)
         (AList.update ''maxAttendees'' (js_or (obj_get (body req) ''maxAttendees'') maxAllowed)
           (AList.update ''organizer'' (req_userId req) (body req))))"

text \<open>A body that is a bare message can only be the capacity error of the update handler.\<close>

definition capacity_reason :: "env \<Rightarrow> request \<Rightarrow> db \<Rightarrow> json \<Rightarrow> bool" where
  "capacity_reason env req d j =
     (\<forall>m. j = JsonMessage m \<longrightarrow>
        (\<exists>c. ceiling_of d = Some c \<and> over_ceiling (engine env) (obj_get (body req) ''maxAttendees'') c \<and>
             m = ''System limit exceeded. Current maximum event capacity: '' @ to_string (engine env) c))"



text \<open>
  A computation whose effects, whatever the world, satisfy \<open>P\<close>; with no commit among
  them; with no deletion among them; with no deletion from the commit on.
\<close>

definition emits :: "(effect list \<Rightarrow> bool) \<Rightarrow> 'a io \<Rightarrow> bool" where
  "emits P m = (\<forall>w. \<exists>es. trace (snd (m w)) = trace w @ es \<and> P es)"

definition no_commit :: "'a io \<Rightarrow> bool" where
  "no_commit m = emits (list_all not_commit) m"

definition no_delete :: "'a io \<Rightarrow> bool" where
  "no_delete m = emits (list_all (\<lambda>e. \<not> is_delete e)) m"

definition deletes_before_commit :: "'a io \<Rightarrow> bool" where
  "deletes_before_commit m = emits (\<lambda>es. list_all (\<lambda>e. \<not> is_delete e) (after_commit es)) m"

text \<open>
  Two worlds that differ at most in the bucket and the trace, and two computations that
  from such worlds give the same result and such worlds again.
\<close>

definition agree :: "world \<Rightarrow> world \<Rightarrow> bool" where
  "agree w1 w2 = (db w1 = db w2 \<and> staged w1 = staged w2 \<and> tx w1 = tx w2 \<and> files w1 = files w2)"

definition same_outcome :: "'a io \<Rightarrow> 'a io \<Rightarrow> bool" where
  "same_outcome m1 m2 =
     (\<forall>w1 w2. agree w1 w2 \<longrightarrow> fst (m1 w1) = fst (m2 w2) \<and> agree (snd (m1 w1)) (snd (m2 w2)))"

section \<open>Example data\<close>

text \<open>
  An event with capacity 50 under a ceiling of 100, two approved participations and a
  pending one, on the S3 backend, with a change detector that compares titles.
\<close>

text \<open>
  The numbers 50, 100 and 150 as binary64: 1.5625 * 2^5 (exponent field 0x404, fraction
  0x9000000000000), 1.5625 * 2^6 (0x405, 0x9000000000000) and 1.171875 * 2^7 (0x406,
  0x2C00000000000).
\<close>

definition double_50 :: double where
  "double_50 = 0x4049000000000000"

definition double_100 :: double where
  "double_100 = 0x4059000000000000"

definition double_150 :: double where
  "double_150 = 0x4062C00000000000"

text \<open>
  The two conversions of the engine on the values that the examples convert, where they
  are JavaScript's: the strings \<open>150\<close> and the empty one, the numbers 0, 50, 100 and 150.
  No example converts another value; the other entries only make the functions total.
\<close>

definition example_engine :: engine where
  "example_engine =
     \<lparr> string_to_number = (\<lambda>s. if s = ''150'' then double_150 else if s = [] then 0 else double_nan),
       number_to_string = (\<lambda>d. if d = double_50 then ''50'' else if d = double_100 then ''100''
                                else if d = double_150 then ''150'' else if d = 0 then ''0''
                                else ''NaN'') \<rparr>"

definition user_ann :: obj where
  "user_ann = [(''_id'', JStr ''u1''), (''firstName'', JStr ''Ann''), (''lastName'', JStr ''Lee''),
               (''email'', JStr ''ann@x.org'')]"

definition event_gala :: obj where
  "event_gala = [(''_id'', JStr ''e1''), (''organizer'', JStr ''u1''), (''title'', JStr ''Gala''),
                 (''maxAttendees'', JNum double_50), (''status'', JStr ''upcoming''),
                 (''image'', JStr ''uploads/old'')]"

definition part_bob :: obj where
  "part_bob = [(''_id'', JStr ''p1''), (''user'', JStr ''u2''), (''event'', JStr ''e1''),
               (''status'', JStr ''approved'')]"

definition part_cy :: obj where
  "part_cy = [(''_id'', JStr ''p2''), (''user'', JStr ''u3''), (''event'', JStr ''e1''),
              (''status'', JStr ''approved'')]"

definition part_dee :: obj where
  "part_dee = [(''_id'', JStr ''p3''), (''user'', JStr ''u4''), (''event'', JStr ''e1''),
               (''status'', JStr ''pending'')]"

definition db_gala :: db where
  "db_gala = \<lparr> events = [event_gala], participations = [part_bob, part_cy, part_dee],
               notifications = [], users = [user_ann],
               settings_doc = Some \<lparr> eventSettings = Some \<lparr> maxAttendeesPerEvent = JNum double_100 \<rparr> \<rparr> \<rparr>"

definition world_gala :: world where
  "world_gala = \<lparr> db = db_gala, staged = db_gala, tx = NoTx, bucket = [''uploads/old''],
                  files = [], trace = [] \<rparr>"

definition env_s3 :: env where
  "env_s3 = \<lparr> STORAGE_TYPE = Some ''s3'', randomBytes_hex = ''ab12'',
              s3_put_error = (\<lambda>k. None), s3_delete_error = (\<lambda>k. None),
              getSignedUrl = (\<lambda>k n. Inr (''https://s3/'' @ k)),
              cloudinary_response = (\<lambda>f. Inl ''unused''),
              db_error = (\<lambda>c. None),
              detectEventChanges = (\<lambda>old upd. obj_get upd ''title'' \<noteq> JUndefined
                                       \<and> obj_get upd ''title'' \<noteq> obj_get (fst old) ''title''),
              logActivity_error = None, new_id = JStr ''e2'', engine = example_engine \<rparr>"

definition req_title :: request where
  "req_title = \<lparr> params_eventId = ''e1'', query = [], body = [(''title'', JStr ''Fair'')],
                 req_file = None, req_userId = JStr ''u1'' \<rparr>"

definition req_capacity :: request where
  "req_capacity = \<lparr> params_eventId = ''e1'', query = [], body = [(''maxAttendees'', JNum double_150)],
                    req_file = None, req_userId = JStr ''u1'' \<rparr>"

text \<open>The same capacity sent as text, as a multipart form sends it.\<close>

definition req_capacity_text :: request where
  "req_capacity_text = \<lparr> params_eventId = ''e1'', query = [], body = [(''maxAttendees'', JStr ''150'')],
                         req_file = None, req_userId = JStr ''u1'' \<rparr>"

text \<open>The same backend when the insertion of notifications raises.\<close>

definition env_insert_fails :: env where
  "env_insert_fails =
     env_s3\<lparr>db_error := (\<lambda>c. if c = CreateNotifications then Some ''Notification validation failed'' else None)\<rparr>"

text \<open>The same backend when the S3 client raises on every deletion.\<close>

definition env_delete_fails :: env where
  "env_delete_fails = env_s3\<lparr>s3_delete_error := (\<lambda>k. Some ''AccessDenied'')\<rparr>"

text \<open>A request with no file whose body asks for the image to be null.\<close>

definition req_clear_image :: request where
  "req_clear_image = \<lparr> params_eventId = ''e1'', query = [], body = [(''image'', JNull)],
                       req_file = None, req_userId = JStr ''u1'' \<rparr>"

text \<open>A request whose \<open>maxAttendees\<close> is the number 0.\<close>

definition req_zero :: request where
  "req_zero = \<lparr> params_eventId = ''e1'', query = [],
                body = [(''title'', JStr ''Expo''), (''maxAttendees'', JNum 0)],
                req_file = None, req_userId = JStr ''u1'' \<rparr>"

text \<open>A request with a new image, held in memory.\<close>

definition req_media :: request where
  "req_media = \<lparr> params_eventId = ''e1'', query = [], body = [(''title'', JStr ''Fair'')],
                 req_file = Some \<lparr> path = None, mimetype = ''image/png'', buffer = ''PNG'' \<rparr>,
                 req_userId = JStr ''u1'' \<rparr>"

text \<open>A request with a new image and a capacity over the ceiling.\<close>

definition req_media_capacity :: request where
  "req_media_capacity = \<lparr> params_eventId = ''e1'', query = [], body = [(''maxAttendees'', JNum double_150)],
                 req_file = Some \<lparr> path = None, mimetype = ''image/png'', buffer = ''PNG'' \<rparr>,
                 req_userId = JStr ''u1'' \<rparr>"

text \<open>A request to delete the event.\<close>

definition req_delete :: request where
  "req_delete = \<lparr> params_eventId = ''e1'', query = [], body = [], req_file = None,
                  req_userId = JStr ''u1'' \<rparr>"

text \<open>A listing request with no query parameter.\<close>

definition req_list :: request where
  "req_list = \<lparr> params_eventId = [], query = [], body = [], req_file = None, req_userId = JStr ''u1'' \<rparr>"

text \<open>The same world when the only participation of the event is the pending one.\<close>

definition world_pending :: world where
  "world_pending = world_gala\<lparr>db := db_gala\<lparr>participations := [part_dee]\<rparr>,
                                staged := db_gala\<lparr>participations := [part_dee]\<rparr>\<rparr>"

text \<open>The same backend when the update of the participations raises.\<close>

definition env_cascade_fails :: env where
  "env_cascade_fails =
     env_s3\<lparr>db_error := (\<lambda>c. if c = UpdateParticipations then Some ''updateMany failed'' else None)\<rparr>"

text \<open>A listing request for the events that the user \<open>u2\<close> has joined.\<close>

definition req_joined :: request where
  "req_joined = \<lparr> params_eventId = [], query = [(''participantId'', JStr ''u2'')], body = [],
                  req_file = None, req_userId = JStr ''u2'' \<rparr>"

text \<open>An update request whose body sets the status to \<open>deleted\<close>.\<close>

definition req_mark_deleted :: request where
  "req_mark_deleted = \<lparr> params_eventId = ''e1'', query = [], body = [(''status'', JStr ''deleted'')],
                        req_file = None, req_userId = JStr ''u1'' \<rparr>"

section \<open>Facts about the steps\<close>

lemmas io_defs = ret_def throw_def bind_def try_catch_def try_finally_def emit_def

subsection \<open>The runs of an update\<close>

lemma persist_and_commit_run:
  assumes "persist_and_commit env req ev oid upd w = (r, w')"
  shows "files w' = files w \<and> bucket w' = bucket w \<and> trace w' = trace w @ effects_of w w' \<and>
     list_all (\<lambda>e. \<not> is_delete e) (effects_of w w') \<and>
     (case r of
        Inl e \<Rightarrow> db w' = db w \<and> tx w' = tx w \<and> list_all not_commit (effects_of w w')
      | Inr x \<Rightarrow>
          status_code x = 200 \<and> (\<exists>signed. json_body x = JsonEvent signed) \<and> tx w' = TxCommitted \<and>
          db_error env UpdateEvent = None \<and> db_error env Commit = None \<and> logActivity_error env = None \<and>
          (\<exists>old. find (has_id (params_eventId req)) (events (staged w)) = Some old \<and>
             \<not> changes_id upd old \<and>
             events (db w') = update_first (has_id (params_eventId req)) (apply_set upd) (events (staged w)) \<and>
             participations (db w') = participations (staged w) \<and>
             users (db w') = users (staged w) \<and>
             settings_doc (db w') = settings_doc (staged w) \<and>
             (if detectEventChanges env ev upd then
                db_error env FindParticipations = None \<and>
                (if filter (approved_for (params_eventId req)) (participations (staged w)) \<noteq> []
                 then (\<exists>org. find (\<lambda>u. obj_get u ''_id'' = obj_get (apply_set upd old) ''organizer'') (users (staged w)) = Some org \<and>
                      db_error env CreateNotifications = None \<and>
                      notifications (db w') = notifications (staged w) @
                        map (build_notification (engine env) (apply_set upd old) org oid)
                          (filter (approved_for (params_eventId req)) (participations (staged w))))
                 else notifications (db w') = notifications (staged w))
              else notifications (db w') = notifications (staged w))))"
  using assms
  by (auto simp: persist_and_commit_def Event_findByIdAndUpdate_session_def logActivity_def
      notify_participants_def Participation_find_session_def Notification_create_session_def
      commitTransaction_def addSignedUrlsToEvent_def sign_event_def getSignedUrlForKey_def
      db_call_def io_defs not_commit_def populate_def Let_def
      effects_of_def split: sum.splits option.splits if_splits)

lemma persist_and_commit_fails:
  assumes "persist_and_commit env req ev oid upd w = (Inl e, w')"
  shows "db_error env UpdateEvent \<noteq> None \<or> db_error env Commit \<noteq> None \<or> logActivity_error env \<noteq> None \<or>
     (case find (has_id (params_eventId req)) (events (staged w)) of
        None \<Rightarrow> True
      | Some old \<Rightarrow> changes_id upd old \<or>
          (detectEventChanges env ev upd \<and>
             (db_error env FindParticipations \<noteq> None \<or>
              (filter (approved_for (params_eventId req)) (participations (staged w)) \<noteq> [] \<and>
                (db_error env CreateNotifications \<noteq> None \<or>
                 find (\<lambda>u. obj_get u ''_id'' = obj_get (apply_set upd old) ''organizer'') (users (staged w)) = None)))))"
  using assms
  by (auto simp: persist_and_commit_def Event_findByIdAndUpdate_session_def logActivity_def
      notify_participants_def Participation_find_session_def Notification_create_session_def
      commitTransaction_def addSignedUrlsToEvent_def sign_event_def getSignedUrlForKey_def
      db_call_def io_defs populate_def Let_def
      split: sum.splits option.splits if_splits)


lemma replace_media_run:
  assumes "replace_media env req ev w = (r, w')"
  shows "db w' = db w \<and> staged w' = staged w \<and> tx w' = tx w \<and>
     trace w' = trace w @ effects_of w w' \<and> list_all not_commit (effects_of w w') \<and>
     (case r of
        Inl e \<Rightarrow> \<not> upload_succeeds env req (files w)
      | Inr k \<Rightarrow> upload_succeeds env req (files w) \<and> k = uploaded_key env req)"
  using assms
  by (auto simp: replace_media_def upload_image_def uploadToS3_def s3_send_put_def uploadToCloudinary_def
      unlinkSync_def deleteOldImage_def deleteFromS3_def s3_send_delete_def upload_succeeds_def
      uploaded_key_def io_defs not_commit_def effects_of_def Let_def
      split: sum.splits option.splits if_splits)

lemma obj_get_update: "obj_get (AList.update k v ob) k' = (if k' = k then v else obj_get ob k')"
  by (simp add: obj_get_def update_conv')

lemma updateEvent_try_run:
  assumes run: "updateEvent_try env req w = (r, w')" and st: "staged w = db w"
  shows "case r of
           Inl e \<Rightarrow> db w' = db w \<and> \<not> update_succeeds env req (db w) (files w)
         | Inr x \<Rightarrow>
             (status_code x = 200) = update_succeeds env req (db w) (files w) \<and>
             capacity_reason env req (db w) (json_body x) \<and>
             (if update_succeeds env req (db w) (files w)
              then db w' = committed_db env req (db w) \<and> tx w' = TxCommitted
              else db w' = db w \<and> tx w' = TxAborted)"
proof (cases "db_error env FindEvent")
  case (Some e)
  with run show ?thesis
    by (auto simp: updateEvent_try_def validate_and_persist_def Event_findById_session_def db_call_def io_defs update_succeeds_def)
next
  case fe: None
  show ?thesis
  proof (cases "find (has_id (params_eventId req)) (events (db w))")
    case None
    with run fe st show ?thesis
      by (auto simp: updateEvent_try_def validate_and_persist_def Event_findById_session_def abortTransaction_def db_call_def io_defs
          update_succeeds_def existing_event_def capacity_reason_def)
  next
    case (Some ev)
    define pev where "pev = populate (db w) ev"
    have ex: "existing_event req (db w) = Some pev"
      by (simp add: existing_event_def Some pev_def)
    obtain r2 w2 where rm: "replace_media env req pev w = (r2, w2)"
      by (cases "replace_media env req pev w")
    note m = replace_media_run[OF rm]
    show ?thesis
    proof (cases r2)
      case (Inl e)
      with run fe st Some rm m show ?thesis
        by (auto simp: updateEvent_try_def validate_and_persist_def Event_findById_session_def db_call_def io_defs
            update_succeeds_def pev_def)
    next
      case (Inr k)
      with m have k: "k = uploaded_key env req" and up: "upload_succeeds env req (files w)"
        and d2: "db w2 = db w" and s2: "staged w2 = db w" and t2: "tx w2 = tx w"
        using st by auto
      have pu: "proposed_update env req (db w) = updateData_of req pev k"
        by (simp add: proposed_update_def ex k)
      show ?thesis
      proof (cases "snd pev")
        case None
        with run fe st Some rm Inr d2 ex show ?thesis
          by (cases pev) (auto simp: updateEvent_try_def validate_and_persist_def Event_findById_session_def db_call_def io_defs
              update_succeeds_def pev_def)
      next
        case org: (Some organizer)
        then have pev': "pev = (ev, Some organizer)"
          by (cases pev) (auto simp: pev_def populate_def)
        show ?thesis
        proof (cases "db_error env FindSettings")
          case (Some e)
          with run fe st \<open>find _ _ = Some ev\<close> rm Inr d2 org show ?thesis
            by (auto simp: updateEvent_try_def validate_and_persist_def Event_findById_session_def Settings_findOne_def db_call_def
                io_defs update_succeeds_def pev_def Let_def)
        next
          case fs: None
          show ?thesis
          proof (cases "ceiling_of (db w)")
            case None
            with run fe fs st \<open>find _ _ = Some ev\<close> rm Inr d2 org ex pev' show ?thesis
              by (auto simp: updateEvent_try_def validate_and_persist_def Event_findById_session_def Settings_findOne_def db_call_def
                  abortTransaction_def io_defs update_succeeds_def pev_def ceiling_of_def capacity_reason_def
                  Let_def split: option.splits)
          next
            case c: (Some c)
            then obtain es where es: "Option.bind (settings_doc (db w)) eventSettings = Some es"
              and ces: "maxAttendeesPerEvent es = c"
              by (auto simp: ceiling_of_def)
            have mx: "obj_get (updateData_of req pev k) ''maxAttendees'' = obj_get (body req) ''maxAttendees''"
              by (simp add: updateData_of_def obj_get_update)
            show ?thesis
            proof (cases "over_ceiling (engine env) (obj_get (body req) ''maxAttendees'') c")
              case True
              with run fe fs st \<open>find _ _ = Some ev\<close> rm Inr d2 org ex pev' c es ces mx show ?thesis
                by (auto simp: updateEvent_try_def validate_and_persist_def Event_findById_session_def Settings_findOne_def db_call_def
                    abortTransaction_def io_defs update_succeeds_def pev_def[symmetric] over_ceiling_def
                    capacity_reason_def Let_def)
            next
              case False
              with run fe fs st \<open>find _ _ = Some ev\<close> rm Inr d2 org ex pev' c es ces mx
              have pc: "persist_and_commit env req pev (obj_get organizer ''_id'') (updateData_of req pev k) w2 = (r, w')"
                by (auto simp: updateEvent_try_def validate_and_persist_def Event_findById_session_def Settings_findOne_def db_call_def
                    abortTransaction_def io_defs pev_def[symmetric] over_ceiling_def Let_def)
              note pr = persist_and_commit_run[OF pc]
              have dt: "detected env req (db w) = detectEventChanges env pev (updateData_of req pev k)"
                by (simp add: detected_def ex pu)
              have ue: "updated_event env req (db w) =
                  Some (apply_set (updateData_of req pev k) ev,
                        find (\<lambda>u. obj_get u ''_id'' = obj_get (apply_set (updateData_of req pev k) ev) ''organizer'')
                          (users (db w)))"
                by (simp add: updated_event_def ex pu pev' populate_def)
              show ?thesis
              proof (cases r)
                case (Inl e)
                from persist_and_commit_fails[OF pc[unfolded Inl]] pr Inl s2 d2 \<open>find _ _ = Some ev\<close>
                show ?thesis
                  by (auto simp: update_succeeds_def ex pev' c False pu dt ue approved_participations_def
                      split: option.splits)
              next
                case (Inr x)
                with pr s2 d2 \<open>find _ _ = Some ev\<close> fe fs up
                have ok: "update_succeeds env req (db w) (files w)"
                  by (auto simp: update_succeeds_def ex pev' c False pu dt ue approved_participations_def
                      split: option.splits if_splits)
                from Inr pr s2 d2 \<open>find _ _ = Some ev\<close>
                have "db w' = committed_db env req (db w)"
                  by (auto intro!: db.equality simp: committed_db_def pu dt ue fan_out_def ex pev'
                      approved_participations_def split: if_splits option.splits)
                with ok Inr pr show ?thesis by (auto simp: capacity_reason_def)
              qed
            qed
          qed
        qed
      qed
    qed
  qed
qed


lemma unlink_temp_run:
  "\<exists>w'. unlink_temp req w = (Inr (), w') \<and> db w' = db w \<and> staged w' = staged w \<and> tx w' = tx w \<and>
        bucket w' = bucket w \<and> trace w' = trace w @ effects_of w w' \<and>
        list_all (\<lambda>e. not_commit e \<and> \<not> is_delete e) (effects_of w w')"
  by (auto simp: unlink_temp_def unlinkSync_def existsSync_def effects_of_def not_commit_def
      split: option.splits)

lemma updateEvent_run:
  "\<exists>x w'. updateEvent env req w = (Inr x, w') \<and>
      (status_code x = 200) = update_succeeds env req (db w) (files w) \<and>
      capacity_reason env req (db w) (json_body x) \<and>
      (if update_succeeds env req (db w) (files w)
       then db w' = committed_db env req (db w) \<and> tx w' = TxCommitted
       else db w' = db w \<and> tx w' = TxAborted)"
proof -
  define w0 where "w0 = w\<lparr>staged := db w, tx := TxActive, trace := trace w @ [StartTransaction]\<rparr>"
  obtain r1 w1 where t: "updateEvent_try env req w0 = (r1, w1)"
    by (cases "updateEvent_try env req w0")
  have "staged w0 = db w0" by (simp add: w0_def)
  note tr = updateEvent_try_run[OF t this]
  show ?thesis
  proof (cases r1)
    case (Inl err)
    obtain w2 where u: "unlink_temp req (w1\<lparr>staged := db w1, tx := TxAborted, trace := trace w1 @ [AbortTransaction]\<rparr>) = (Inr (), w2)"
      and "db w2 = db w1" "tx w2 = TxAborted"
      using unlink_temp_run[of req "w1\<lparr>staged := db w1, tx := TxAborted, trace := trace w1 @ [AbortTransaction]\<rparr>"]
      by auto
    with tr Inl t show ?thesis
      by (auto simp: updateEvent_def startTransaction_def abortTransaction_def endSession_def io_defs
          w0_def[symmetric] capacity_reason_def) (auto simp: w0_def)
  next
    case (Inr x)
    with tr t show ?thesis
      by (auto simp: updateEvent_def startTransaction_def endSession_def io_defs w0_def[symmetric])
         (auto simp: w0_def)
  qed
qed


lemma updateEvent_capacity_response:
  assumes fe: "db_error env FindEvent = None" and fs: "db_error env FindSettings = None"
    and up: "upload_succeeds env req (files w)"
    and ex: "existing_event req (db w) = Some (ev, Some organizer)"
    and c: "ceiling_of (db w) = Some c"
    and over: "over_ceiling (engine env) (obj_get (body req) ''maxAttendees'') c"
  shows "fst (updateEvent env req w) =
     Inr \<lparr> status_code = 400,
           json_body = JsonMessage (''System limit exceeded. Current maximum event capacity: '' @ to_string (engine env) c) \<rparr>"
proof -
  define w0 where "w0 = w\<lparr>staged := db w, tx := TxActive, trace := trace w @ [StartTransaction]\<rparr>"
  obtain r2 w2 where rm: "replace_media env req (ev, Some organizer) w0 = (r2, w2)"
    by (cases "replace_media env req (ev, Some organizer) w0")
  from replace_media_run[OF rm] up obtain k where r2: "r2 = Inr k" and d2: "db w2 = db w"
    by (cases r2) (auto simp: w0_def)
  from ex obtain e0 where f: "find (has_id (params_eventId req)) (events (db w)) = Some e0"
    and p: "populate (db w) e0 = (ev, Some organizer)"
    by (auto simp: existing_event_def)
  from c obtain es where es: "Option.bind (settings_doc (db w)) eventSettings = Some es"
    and ces: "maxAttendeesPerEvent es = c"
    by (auto simp: ceiling_of_def)
  have mx: "obj_get (updateData_of req (ev, Some organizer) k) ''maxAttendees'' = obj_get (body req) ''maxAttendees''"
    by (simp add: updateData_of_def obj_get_update)
  from fe fs f p rm r2 d2 es ces mx over
  have "updateEvent_try env req w0 =
     (Inr \<lparr> status_code = 400,
            json_body = JsonMessage (''System limit exceeded. Current maximum event capacity: '' @ to_string (engine env) c) \<rparr>,
      w2\<lparr>staged := db w2, tx := TxAborted, trace := trace w2 @ [AbortTransaction]\<rparr>)"
    by (simp add: updateEvent_try_def validate_and_persist_def Event_findById_session_def Settings_findOne_def db_call_def
        abortTransaction_def io_defs over_ceiling_def Let_def w0_def)
  then show ?thesis
    by (simp add: updateEvent_def startTransaction_def endSession_def io_defs w0_def[symmetric])
qed

lemma double_gt_truthy:
  assumes "double_gt a b" and "\<not> double_gt 0 b"
  shows "\<not> is_nan a \<and> magnitude a \<noteq> 0"
proof -
  have z: "magnitude 0 = 0" "\<not> is_nan 0" "double_ord 0 = 0"
    by (simp_all add: magnitude_def is_nan_def double_ord_def)
  from assms z have nb: "\<not> is_nan a" "\<not> is_nan b" "double_ord b < double_ord a" "0 \<le> double_ord b"
    by (auto simp: double_gt_def)
  then have "magnitude a \<noteq> 0"
    by (auto simp: double_ord_def split: if_splits)
  with nb show ?thesis by simp
qed

lemma gt_nonneg_truthy:
  assumes "js_gt eng v (JNum n)" and "\<not> double_gt 0 n" and "string_to_number eng [] = 0"
  shows "js_truthy v"
proof (cases v)
  case (JNum x)
  with assms double_gt_truthy[of x n] show ?thesis by simp
next
  case (JStr t)
  with assms show ?thesis by (cases t) auto
next
  case JUndefined
  with assms show ?thesis
    by (simp add: double_gt_def is_nan_def magnitude_def double_nan_def)
qed (use assms in \<open>auto split: if_splits\<close>)

lemmas example_defs = double_50_def double_100_def double_150_def example_engine_def req_capacity_text_def
  env_cascade_fails_def req_joined_def req_mark_deleted_def world_pending_def
  user_ann_def event_gala_def part_bob_def part_cy_def part_dee_def db_gala_def
  world_gala_def env_s3_def req_title_def req_capacity_def env_insert_fails_def env_delete_fails_def
  req_clear_image_def req_zero_def req_media_def req_media_capacity_def req_list_def req_delete_def

lemmas update_defs = updateEvent_def updateEvent_try_def validate_and_persist_def persist_and_commit_def
  notify_participants_def replace_media_def upload_image_def uploadToS3_def s3_send_put_def
  randomImageName_def deleteOldImage_def deleteFromS3_def s3_send_delete_def
  Event_findById_session_def Event_findByIdAndUpdate_session_def Settings_findOne_def
  Participation_find_session_def Notification_create_session_def commitTransaction_def
  abortTransaction_def startTransaction_def endSession_def unlink_temp_def logActivity_def
  addSignedUrlsToEvent_def sign_event_def getSignedUrlForKey_def storageType_def
  db_call_def io_defs Let_def

lemmas notion_defs = ceiling_of_def existing_event_def approved_participations_def uploaded_key_def
  upload_succeeds_def proposed_update_def detected_def updated_event_def fan_out_def committed_db_def
  over_ceiling_def update_succeeds_def populate_def has_id_def approved_for_def obj_get_def
  updateData_of_def changes_id_def apply_set_def js_or_def
  double_gt_def is_nan_def double_ord_def magnitude_def double_nan_def double_one_def


section \<open>The claims\<close>

text \<open>
  C2. An update whose proposed \<open>maxAttendees\<close> is present and exceeds the configured
  ceiling (it is truthy and compares greater than the ceiling with \<open>>\<close>, whatever the
  two values are: numbers, text of a form field, in any notation that converts to a
  number) leaves the database as it was, the stored event and its media key included, and
  its transaction aborted, and is never answered with 200. When the request reaches the
  capacity check (the event exists and has its organizer, the upload if any and the two
  reads before the check do not raise), the answer is 400 with a message that ends with
  the ceiling as a template literal renders it. Under a ceiling that is a number and not
  negative, every value that compares greater is truthy, given that the empty string
  converts to 0.
\<close>

theorem updateEvent_over_ceiling_aborts:
  assumes c: "ceiling_of (db w) = Some c"
    and over: "over_ceiling (engine env) (obj_get (body req) ''maxAttendees'') c"
  shows "db (snd (updateEvent env req w)) = db w \<and>
     tx (snd (updateEvent env req w)) = TxAborted \<and>
     (\<exists>x. fst (updateEvent env req w) = Inr x \<and> status_code x \<noteq> 200) \<and>
     (db_error env FindEvent = None \<and> db_error env FindSettings = None \<and>
      upload_succeeds env req (files w) \<and>
      (\<exists>ev organizer. existing_event req (db w) = Some (ev, Some organizer)) \<longrightarrow>
        fst (updateEvent env req w) =
          Inr \<lparr> status_code = 400,
                json_body = JsonMessage
                  (''System limit exceeded. Current maximum event capacity: '' @ to_string (engine env) c) \<rparr>) \<and>
     (\<forall>v n. string_to_number (engine env) [] = 0 \<and> \<not> double_gt 0 n \<and> js_gt (engine env) v (JNum n) \<longrightarrow>
        over_ceiling (engine env) v (JNum n))"
proof -
  have no: "\<not> update_succeeds env req (db w) (files w)"
    using c over by (auto simp: update_succeeds_def split: option.splits prod.splits)
  from updateEvent_run[of env req w] no
  have "db (snd (updateEvent env req w)) = db w \<and> tx (snd (updateEvent env req w)) = TxAborted \<and>
     (\<exists>x. fst (updateEvent env req w) = Inr x \<and> status_code x \<noteq> 200)"
    by auto
  moreover have "db_error env FindEvent = None \<and> db_error env FindSettings = None \<and>
      upload_succeeds env req (files w) \<and>
      (\<exists>ev organizer. existing_event req (db w) = Some (ev, Some organizer)) \<longrightarrow>
        fst (updateEvent env req w) =
          Inr \<lparr> status_code = 400,
                json_body = JsonMessage
                  (''System limit exceeded. Current maximum event capacity: '' @ to_string (engine env) c) \<rparr>"
    using updateEvent_capacity_response[OF _ _ _ _ c over] by blast
  moreover have "\<forall>v n. string_to_number (engine env) [] = 0 \<and> \<not> double_gt 0 n \<and> js_gt (engine env) v (JNum n) \<longrightarrow>
        over_ceiling (engine env) v (JNum n)"
    using gt_nonneg_truthy by (auto simp: over_ceiling_def)
  ultimately show ?thesis by blast
qed

theorem updateEvent_over_ceiling_aborts_witness:
  "ceiling_of (db world_gala) = Some (JNum double_100) \<and>
   over_ceiling (engine env_s3) (obj_get (body req_capacity) ''maxAttendees'') (JNum double_100) \<and>
   over_ceiling (engine env_s3) (obj_get (body req_capacity_text) ''maxAttendees'') (JNum double_100) \<and>
   \<not> over_ceiling (engine env_s3) (JNum double_50) (JNum double_100) \<and>
   \<not> over_ceiling (engine env_s3) (JNum double_100) (JNum double_100) \<and>
   db_error env_s3 FindEvent = None \<and> db_error env_s3 FindSettings = None \<and>
   upload_succeeds env_s3 req_capacity (files world_gala) \<and>
   existing_event req_capacity (db world_gala) = Some (event_gala, Some user_ann) \<and>
   string_to_number (engine env_s3) [] = 0 \<and> \<not> double_gt 0 double_100 \<and>
   js_gt (engine env_s3) (JNum double_150) (JNum double_100) \<and>
   js_truthy (JNum double_150) \<and>
   js_gt (engine env_s3) (JBool True) (JNum 0) \<and> \<not> js_gt (engine env_s3) JNull (JNum 0) \<and>
   \<not> js_gt (engine env_s3) JUndefined (JNum 0) \<and>
   \<not> js_gt (engine env_s3) (JNum double_nan) (JNum 0) \<and> \<not> js_gt (engine env_s3) (JNum 0) (JNum double_nan) \<and>
   \<not> js_gt (engine env_s3) (JNum 0) (JNum 0x8000000000000000) \<and>
   js_gt (engine env_s3) (JNum 0) (JNum 0xC059000000000000) \<and>
   db (snd (updateEvent env_s3 req_capacity world_gala)) = db world_gala \<and>
   obj_get event_gala ''maxAttendees'' = JNum double_50 \<and>
   tx (snd (updateEvent env_s3 req_capacity world_gala)) = TxAborted \<and>
   fst (updateEvent env_s3 req_capacity world_gala) =
     Inr \<lparr> status_code = 400,
           json_body = JsonMessage ''System limit exceeded. Current maximum event capacity: 100'' \<rparr> \<and>
   db (snd (updateEvent env_s3 req_capacity_text world_gala)) = db world_gala \<and>
   fst (updateEvent env_s3 req_capacity_text world_gala) =
     Inr \<lparr> status_code = 400,
           json_body = JsonMessage ''System limit exceeded. Current maximum event capacity: 100'' \<rparr>"
proof -
  have g: "double_gt double_150 double_100" "\<not> double_gt 0 double_100"
    "\<not> is_nan double_150" "magnitude double_150 \<noteq> 0"
    "\<not> double_gt double_50 double_100" "\<not> double_gt double_100 double_100"
    by (simp_all add: double_gt_def is_nan_def double_ord_def magnitude_def example_defs)
  from updateEvent_over_ceiling_aborts[of world_gala "JNum double_100" env_s3 req_capacity]
    updateEvent_over_ceiling_aborts[of world_gala "JNum double_100" env_s3 req_capacity_text] g
  show ?thesis
    by (simp add: example_defs notion_defs)
qed


text \<open>
  C3. An update creates notification records if and only if it goes through, the change
  detector reports a change and the event has an approved participation. With no approved
  participation none is created, whatever the fields; with no change detected none is
  created, whoever is approved; and otherwise the update creates one for each approved
  participation.
\<close>

theorem notifications_iff_change_and_approved:
  "(notifications (db (snd (updateEvent env req w))) \<noteq> notifications (db w))
     = (update_succeeds env req (db w) (files w) \<and> detected env req (db w)
        \<and> approved_participations req (db w) \<noteq> []) \<and>
   (approved_participations req (db w) = [] \<longrightarrow>
      notifications (db (snd (updateEvent env req w))) = notifications (db w)) \<and>
   (\<not> detected env req (db w) \<longrightarrow>
      notifications (db (snd (updateEvent env req w))) = notifications (db w)) \<and>
   length (notifications (db (snd (updateEvent env req w)))) =
     length (notifications (db w)) +
       (if update_succeeds env req (db w) (files w) \<and> detected env req (db w)
        then length (approved_participations req (db w)) else 0)"
proof -
  have len: "update_succeeds env req (db w) (files w) \<Longrightarrow> detected env req (db w) \<Longrightarrow>
     length (fan_out env req (db w)) = length (approved_participations req (db w))"
    by (cases "approved_participations req (db w) = []")
       (auto simp: update_succeeds_def fan_out_def split: option.splits prod.splits if_splits)
  from updateEvent_run[of env req w] len show ?thesis
    by (cases "update_succeeds env req (db w) (files w)")
       (auto simp: committed_db_def)
qed


theorem notifications_iff_change_and_approved_witness:
  "update_succeeds env_s3 req_title (db world_gala) (files world_gala) \<and>
   detected env_s3 req_title (db world_gala) \<and>
   approved_participations req_title (db world_gala) = [part_bob, part_cy] \<and>
   notifications (db (snd (updateEvent env_s3 req_title world_gala))) \<noteq> notifications (db world_gala) \<and>
   length (notifications (db (snd (updateEvent env_s3 req_title world_gala)))) = 2 \<and>
   update_succeeds env_s3 req_title (db world_pending) (files world_pending) \<and>
   detected env_s3 req_title (db world_pending) \<and>
   approved_participations req_title (db world_pending) = [] \<and>
   notifications (db (snd (updateEvent env_s3 req_title world_pending))) = [] \<and>
   update_succeeds env_s3 req_clear_image (db world_gala) (files world_gala) \<and>
   \<not> detected env_s3 req_clear_image (db world_gala) \<and>
   approved_participations req_clear_image (db world_gala) = [part_bob, part_cy] \<and>
   notifications (db (snd (updateEvent env_s3 req_clear_image world_gala))) = [] \<and>
   \<not> update_succeeds env_s3 req_capacity_text (db world_gala) (files world_gala) \<and>
   notifications (db (snd (updateEvent env_s3 req_capacity_text world_gala))) = []"
  using notifications_iff_change_and_approved[of env_s3 req_title world_gala]
    notifications_iff_change_and_approved[of env_s3 req_title world_pending]
    notifications_iff_change_and_approved[of env_s3 req_clear_image world_gala]
    notifications_iff_change_and_approved[of env_s3 req_capacity_text world_gala]
  by (simp add: example_defs notion_defs)


subsection \<open>Updates of documents\<close>

lemma fold_set_get:
  "distinct (map fst al) \<Longrightarrow>
   obj_get (fold (\<lambda>(k, v) d. if v = JUndefined then d else AList.update k v d) al d) k =
     (case map_of al k of
        None \<Rightarrow> obj_get d k
      | Some v \<Rightarrow> if v = JUndefined then obj_get d k else v)"
proof (induction al arbitrary: d)
  case Nil
  then show ?case by simp
next
  case (Cons a al)
  obtain k1 v1 where a: "a = (k1, v1)" by (cases a)
  from Cons.prems a have "map_of al k1 = None" and "distinct (map fst al)"
    by (auto simp: map_of_eq_None_iff)
  with Cons.IH[of "if v1 = JUndefined then d else AList.update k1 v1 d"] a show ?case
    by (auto simp: obj_get_update split: option.splits)
qed

lemma update_first_no_match: "find P xs = None \<Longrightarrow> update_first P f xs = xs"
  by (induction xs) (auto split: if_splits)

lemma apply_set_get:
  "obj_get (apply_set update doc) k =
     (case map_of update k of
        None \<Rightarrow> obj_get doc k
      | Some v \<Rightarrow> if v = JUndefined then obj_get doc k else v)"
  unfolding apply_set_def
  by (simp add: fold_set_get map_of_clearjunk)

lemma apply_set_same:
  assumes "obj_get update k = obj_get doc k"
  shows "obj_get (apply_set update doc) k = obj_get doc k"
proof (cases "map_of update k")
  case None
  then show ?thesis by (simp add: apply_set_get)
next
  case (Some v)
  with assms have "v = obj_get doc k" by (simp add: obj_get_def)
  with Some show ?thesis by (simp add: apply_set_get)
qed

lemma map_update_first:
  "find P xs = Some x \<Longrightarrow> g (f x) = g x \<Longrightarrow> map g (update_first P f xs) = map g xs"
  by (induction xs) (auto split: if_splits)

lemma updateData_image:
  "obj_get (updateData_of req ev k) ''image'' = js_or k (obj_get (fst ev) ''image'')"
  by (simp add: updateData_of_def obj_get_update)

lemma build_notification_fields:
  "userId (build_notification eng ue org oid p) = obj_get p ''user'' \<and>
   ntype (build_notification eng ue org oid p) = ''eventUpdate'' \<and>
   relatedId (build_notification eng ue org oid p) = obj_get p ''_id'' \<and>
   notificationSender (build_notification eng ue org oid p) = oid \<and>
   isRead (build_notification eng ue org oid p) = False \<and>
   message (build_notification eng ue org oid p) =
     ''Event '' @ quoted (to_string eng (obj_get ue ''title'')) @ '' has been updated'' \<and>
   (\<exists>pre mid. data_message (build_notification eng ue org oid p) =
      pre @ quoted (to_string eng (obj_get ue ''title'')) @ mid
        @ to_string eng (obj_get org ''firstName'') @ '' '' @ to_string eng (obj_get org ''lastName'')
        @ '','' @ [CHR 0x0A] @ indent @ to_string eng (obj_get org ''email''))"
proof -
  have "\<exists>pre mid. data_message (build_notification eng ue org oid p) =
      pre @ quoted (to_string eng (obj_get ue ''title'')) @ mid
        @ to_string eng (obj_get org ''firstName'') @ '' '' @ to_string eng (obj_get org ''lastName'')
        @ '','' @ [CHR 0x0A] @ indent @ to_string eng (obj_get org ''email'')"
    apply (rule exI[of _ "''The event ''"])
    apply (rule exI[of _ "'' has been updated. Please kindly check the new details.'' @ [CHR 0x0A]
           @ indent @ ''We look forward to your participation.'' @ [CHR 0x0A]
           @ indent @ ''  '' @ [CHR 0x0A]
           @ indent @ ''Regards,'' @ [CHR 0x0A]
           @ indent @ ''  '' @ [CHR 0x0A]
           @ indent"])
    apply (simp add: build_notification_def)
    done
  then show ?thesis by (simp add: build_notification_def)
qed


lemma build_notification_text:
  assumes "obj_get ue ''title'' = JStr t" and "obj_get org ''firstName'' = JStr f"
    and "obj_get org ''lastName'' = JStr l" and "obj_get org ''email'' = JStr e"
  shows "message (build_notification eng ue org oid p) =
       ''Event '' @ [CHR 0x22] @ t @ [CHR 0x22] @ '' has been updated'' \<and>
     data_message (build_notification eng ue org oid p) =
       ''The event '' @ [CHR 0x22] @ t @ [CHR 0x22]
         @ '' has been updated. Please kindly check the new details.'' @ [CHR 0x0A]
         @ ''              We look forward to your participation.'' @ [CHR 0x0A]
         @ ''                '' @ [CHR 0x0A]
         @ ''              Regards,'' @ [CHR 0x0A]
         @ ''                '' @ [CHR 0x0A]
         @ ''              '' @ f @ '' '' @ l @ '','' @ [CHR 0x0A]
         @ ''              '' @ e"
  using assms by (simp add: build_notification_def quoted_def indent_def eval_nat_numeral)


text \<open>
  C4. When the insertion of the notifications raises in an update that detected a change
  for an event with approved participations, the database is left as it was and the
  transaction is aborted, so the update of the event is not persisted. In every run,
  either the database is as before and the transaction aborted, or the transaction is
  committed and the database holds both the updated event and, after a detected change,
  one notification for each approved participation.
\<close>

theorem notification_insert_failure_rolls_back:
  "(db_error env CreateNotifications \<noteq> None \<and> detected env req (db w)
      \<and> approved_participations req (db w) \<noteq> [] \<longrightarrow>
      db (snd (updateEvent env req w)) = db w \<and> tx (snd (updateEvent env req w)) = TxAborted \<and>
      (\<exists>x. fst (updateEvent env req w) = Inr x \<and> status_code x \<noteq> 200)) \<and>
   ((db (snd (updateEvent env req w)) = db w \<and> tx (snd (updateEvent env req w)) = TxAborted)
    \<or> (tx (snd (updateEvent env req w)) = TxCommitted \<and>
        events (db (snd (updateEvent env req w))) =
          update_first (has_id (params_eventId req)) (apply_set (proposed_update env req (db w)))
            (events (db w)) \<and>
        notifications (db (snd (updateEvent env req w))) =
          notifications (db w) @ (if detected env req (db w) then fan_out env req (db w) else []) \<and>
        length (if detected env req (db w) then fan_out env req (db w) else []) =
          (if detected env req (db w) then length (approved_participations req (db w)) else 0)))"
proof -
  have len: "update_succeeds env req (db w) (files w) \<Longrightarrow> detected env req (db w) \<Longrightarrow>
     length (fan_out env req (db w)) = length (approved_participations req (db w))"
    by (cases "approved_participations req (db w) = []")
       (auto simp: update_succeeds_def fan_out_def split: option.splits prod.splits if_splits)
  have no: "db_error env CreateNotifications \<noteq> None \<Longrightarrow> detected env req (db w) \<Longrightarrow>
     approved_participations req (db w) \<noteq> [] \<Longrightarrow> \<not> update_succeeds env req (db w) (files w)"
    by (auto simp: update_succeeds_def split: option.splits prod.splits)
  from updateEvent_run[of env req w] len no show ?thesis
    by (cases "update_succeeds env req (db w) (files w)") (auto simp: committed_db_def)
qed

theorem notification_insert_failure_rolls_back_witness:
  "db_error env_insert_fails CreateNotifications \<noteq> None \<and>
   detected env_insert_fails req_title (db world_gala) \<and>
   approved_participations req_title (db world_gala) \<noteq> [] \<and>
   db (snd (updateEvent env_insert_fails req_title world_gala)) = db world_gala \<and>
   tx (snd (updateEvent env_insert_fails req_title world_gala)) = TxAborted"
  using notification_insert_failure_rolls_back[of env_insert_fails req_title world_gala]
  by (simp add: example_defs notion_defs)


text \<open>
  C5. When an update goes through with a detected change and approved participations, the
  transaction commits and the notifications added are exactly one for each approved
  participation, in order: addressed to the participation's user, of type \<open>eventUpdate\<close>,
  with \<open>relatedId\<close> the participation, the organizer of the existing event as sender, a
  short message naming the event, and a longer one naming the event and the organizer's
  first name, last name and e-mail address. When the title and the organizer's three
  fields are strings, the two messages are these texts, character for character: the
  title between double quotes in both, and the longer one ending with the first name, a
  space, the last name, a comma, and the e-mail address on a line of its own. In the
  example, a change of title alone with two approved participations, two records are
  created, each with the messages for the title Fair and the organizer Ann Lee, and the
  title is updated.
\<close>

theorem fan_out_one_per_approved_participation:
  assumes ok: "update_succeeds env req (db w) (files w)"
    and ch: "detected env req (db w)"
    and ap: "approved_participations req (db w) \<noteq> []"
  shows "\<exists>x ev organizer updatedEvent organizer'.
     fst (updateEvent env req w) = Inr x \<and> status_code x = 200 \<and>
     tx (snd (updateEvent env req w)) = TxCommitted \<and>
     db (snd (updateEvent env req w)) = committed_db env req (db w) \<and>
     existing_event req (db w) = Some (ev, Some organizer) \<and>
     updated_event env req (db w) = Some (updatedEvent, Some organizer') \<and>
     notifications (db (snd (updateEvent env req w))) =
       notifications (db w) @
         map (build_notification (engine env) updatedEvent organizer' (obj_get organizer ''_id''))
           (approved_participations req (db w)) \<and>
     (\<forall>p. userId (build_notification (engine env) updatedEvent organizer' (obj_get organizer ''_id'') p) = obj_get p ''user'' \<and>
          ntype (build_notification (engine env) updatedEvent organizer' (obj_get organizer ''_id'') p) = ''eventUpdate'' \<and>
          relatedId (build_notification (engine env) updatedEvent organizer' (obj_get organizer ''_id'') p) = obj_get p ''_id'' \<and>
          notificationSender (build_notification (engine env) updatedEvent organizer' (obj_get organizer ''_id'') p)
            = obj_get organizer ''_id'' \<and>
          isRead (build_notification (engine env) updatedEvent organizer' (obj_get organizer ''_id'') p) = False \<and>
          message (build_notification (engine env) updatedEvent organizer' (obj_get organizer ''_id'') p) =
            ''Event '' @ quoted (to_string (engine env) (obj_get updatedEvent ''title'')) @ '' has been updated'' \<and>
          (\<exists>pre mid. data_message (build_notification (engine env) updatedEvent organizer' (obj_get organizer ''_id'') p) =
             pre @ quoted (to_string (engine env) (obj_get updatedEvent ''title'')) @ mid
               @ to_string (engine env) (obj_get organizer' ''firstName'') @ '' ''
               @ to_string (engine env) (obj_get organizer' ''lastName'')
               @ '','' @ [CHR 0x0A] @ indent @ to_string (engine env) (obj_get organizer' ''email''))) \<and>
     (\<forall>p t f l e.
        obj_get updatedEvent ''title'' = JStr t \<and> obj_get organizer' ''firstName'' = JStr f \<and>
        obj_get organizer' ''lastName'' = JStr l \<and> obj_get organizer' ''email'' = JStr e \<longrightarrow>
          message (build_notification (engine env) updatedEvent organizer' (obj_get organizer ''_id'') p) =
            ''Event '' @ [CHR 0x22] @ t @ [CHR 0x22] @ '' has been updated'' \<and>
          data_message (build_notification (engine env) updatedEvent organizer' (obj_get organizer ''_id'') p) =
            ''The event '' @ [CHR 0x22] @ t @ [CHR 0x22]
              @ '' has been updated. Please kindly check the new details.'' @ [CHR 0x0A]
              @ ''              We look forward to your participation.'' @ [CHR 0x0A]
              @ ''                '' @ [CHR 0x0A]
              @ ''              Regards,'' @ [CHR 0x0A]
              @ ''                '' @ [CHR 0x0A]
              @ ''              '' @ f @ '' '' @ l @ '','' @ [CHR 0x0A]
              @ ''              '' @ e)"
proof -
  from ok ch ap obtain ev organizer updatedEvent organizer' where
    ex: "existing_event req (db w) = Some (ev, Some organizer)" and
    ue: "updated_event env req (db w) = Some (updatedEvent, Some organizer')"
    by (auto simp: update_succeeds_def split: option.splits prod.splits)
  then have fo: "fan_out env req (db w) =
      map (build_notification (engine env) updatedEvent organizer' (obj_get organizer ''_id''))
        (approved_participations req (db w))"
    by (simp add: fan_out_def)
  from updateEvent_run[of env req w] ok ch
  obtain x where x: "fst (updateEvent env req w) = Inr x" "status_code x = 200"
    "tx (snd (updateEvent env req w)) = TxCommitted"
    "db (snd (updateEvent env req w)) = committed_db env req (db w)"
    by auto
  have n: "notifications (db (snd (updateEvent env req w))) =
       notifications (db w) @
         map (build_notification (engine env) updatedEvent organizer' (obj_get organizer ''_id''))
           (approved_participations req (db w))"
    using x fo ch by (simp add: committed_db_def)
  note fields = build_notification_fields[of "engine env" updatedEvent organizer' "obj_get organizer ''_id''"]
  note texts = build_notification_text[of updatedEvent _ organizer' _ _ _ "engine env" "obj_get organizer ''_id''"]
  show ?thesis
    apply (rule exI[of _ x], rule exI[of _ ev], rule exI[of _ organizer])
    apply (rule exI[of _ updatedEvent], rule exI[of _ organizer'])
    apply (intro conjI allI impI)
    using x ex ue n fields texts apply blast+
    done
qed


theorem fan_out_one_per_approved_participation_witness:
  "update_succeeds env_s3 req_title (db world_gala) (files world_gala) \<and>
   detected env_s3 req_title (db world_gala) \<and>
   approved_participations req_title (db world_gala) \<noteq> [] \<and>
   (\<exists>ue. updated_event env_s3 req_title (db world_gala) = Some (ue, Some user_ann) \<and>
      obj_get ue ''title'' = JStr ''Fair'') \<and>
   obj_get user_ann ''firstName'' = JStr ''Ann'' \<and> obj_get user_ann ''lastName'' = JStr ''Lee'' \<and>
   obj_get user_ann ''email'' = JStr ''ann@x.org'' \<and>
   tx (snd (updateEvent env_s3 req_title world_gala)) = TxCommitted \<and>
   map (\<lambda>ev. obj_get ev ''title'') (events (db (snd (updateEvent env_s3 req_title world_gala)))) = [JStr ''Fair''] \<and>
   length (notifications (db (snd (updateEvent env_s3 req_title world_gala)))) = 2 \<and>
   map userId (notifications (db (snd (updateEvent env_s3 req_title world_gala)))) = [JStr ''u2'', JStr ''u3''] \<and>
   map relatedId (notifications (db (snd (updateEvent env_s3 req_title world_gala)))) = [JStr ''p1'', JStr ''p2''] \<and>
   map ntype (notifications (db (snd (updateEvent env_s3 req_title world_gala)))) = [''eventUpdate'', ''eventUpdate''] \<and>
   map notificationSender (notifications (db (snd (updateEvent env_s3 req_title world_gala)))) = [JStr ''u1'', JStr ''u1''] \<and>
   map isRead (notifications (db (snd (updateEvent env_s3 req_title world_gala)))) = [False, False] \<and>
   map message (notifications (db (snd (updateEvent env_s3 req_title world_gala)))) =
     [''Event '' @ [CHR 0x22] @ ''Fair'' @ [CHR 0x22] @ '' has been updated'',
      ''Event '' @ [CHR 0x22] @ ''Fair'' @ [CHR 0x22] @ '' has been updated''] \<and>
   map data_message (notifications (db (snd (updateEvent env_s3 req_title world_gala)))) =
     [''The event '' @ [CHR 0x22] @ ''Fair'' @ [CHR 0x22]
        @ '' has been updated. Please kindly check the new details.'' @ [CHR 0x0A]
        @ ''              We look forward to your participation.'' @ [CHR 0x0A]
        @ ''                '' @ [CHR 0x0A]
        @ ''              Regards,'' @ [CHR 0x0A]
        @ ''                '' @ [CHR 0x0A]
        @ ''              Ann Lee,'' @ [CHR 0x0A]
        @ ''              ann@x.org'',
      ''The event '' @ [CHR 0x22] @ ''Fair'' @ [CHR 0x22]
        @ '' has been updated. Please kindly check the new details.'' @ [CHR 0x0A]
        @ ''              We look forward to your participation.'' @ [CHR 0x0A]
        @ ''                '' @ [CHR 0x0A]
        @ ''              Regards,'' @ [CHR 0x0A]
        @ ''                '' @ [CHR 0x0A]
        @ ''              Ann Lee,'' @ [CHR 0x0A]
        @ ''              ann@x.org'']"
proof -
  have h: "update_succeeds env_s3 req_title (db world_gala) (files world_gala)"
    "detected env_s3 req_title (db world_gala)"
    "approved_participations req_title (db world_gala) \<noteq> []"
    by (simp_all add: example_defs notion_defs)
  have u: "\<exists>ue. updated_event env_s3 req_title (db world_gala) = Some (ue, Some user_ann) \<and>
      obj_get ue ''title'' = JStr ''Fair''"
    by (simp add: example_defs notion_defs)
  have a: "approved_participations req_title (db world_gala) = [part_bob, part_cy]"
    by (simp add: example_defs notion_defs)
  have e: "existing_event req_title (db world_gala) = Some (event_gala, Some user_ann)"
    by (simp add: example_defs notion_defs)
  have o: "obj_get user_ann ''firstName'' = JStr ''Ann''" "obj_get user_ann ''lastName'' = JStr ''Lee''"
    "obj_get user_ann ''email'' = JStr ''ann@x.org''" "obj_get user_ann ''_id'' = JStr ''u1''"
    by (simp_all add: user_ann_def obj_get_def)
  have ps: "obj_get part_bob ''user'' = JStr ''u2''" "obj_get part_bob ''_id'' = JStr ''p1''"
    "obj_get part_cy ''user'' = JStr ''u3''" "obj_get part_cy ''_id'' = JStr ''p2''"
    by (simp_all add: part_bob_def part_cy_def obj_get_def)
  have t: "map (\<lambda>ev. obj_get ev ''title'') (events (committed_db env_s3 req_title (db world_gala))) = [JStr ''Fair'']"
    by (simp add: example_defs notion_defs)
  have n0: "notifications (db world_gala) = []"
    by (simp add: example_defs)
  from fan_out_one_per_approved_participation[OF h] obtain ev organizer updatedEvent organizer' where
    c: "tx (snd (updateEvent env_s3 req_title world_gala)) = TxCommitted"
      "db (snd (updateEvent env_s3 req_title world_gala)) = committed_db env_s3 req_title (db world_gala)"
    and ex: "existing_event req_title (db world_gala) = Some (ev, Some organizer)"
    and ue: "updated_event env_s3 req_title (db world_gala) = Some (updatedEvent, Some organizer')"
    and n: "notifications (db (snd (updateEvent env_s3 req_title world_gala))) =
       notifications (db world_gala) @
         map (build_notification (engine env_s3) updatedEvent organizer' (obj_get organizer ''_id''))
           (approved_participations req_title (db world_gala))"
    and f: "\<And>p. userId (build_notification (engine env_s3) updatedEvent organizer' (obj_get organizer ''_id'') p) = obj_get p ''user'' \<and>
          ntype (build_notification (engine env_s3) updatedEvent organizer' (obj_get organizer ''_id'') p) = ''eventUpdate'' \<and>
          relatedId (build_notification (engine env_s3) updatedEvent organizer' (obj_get organizer ''_id'') p) = obj_get p ''_id'' \<and>
          notificationSender (build_notification (engine env_s3) updatedEvent organizer' (obj_get organizer ''_id'') p)
            = obj_get organizer ''_id'' \<and>
          isRead (build_notification (engine env_s3) updatedEvent organizer' (obj_get organizer ''_id'') p) = False"
    and m: "\<And>p t f l e.
        obj_get updatedEvent ''title'' = JStr t \<and> obj_get organizer' ''firstName'' = JStr f \<and>
        obj_get organizer' ''lastName'' = JStr l \<and> obj_get organizer' ''email'' = JStr e \<Longrightarrow>
          message (build_notification (engine env_s3) updatedEvent organizer' (obj_get organizer ''_id'') p) =
            ''Event '' @ [CHR 0x22] @ t @ [CHR 0x22] @ '' has been updated'' \<and>
          data_message (build_notification (engine env_s3) updatedEvent organizer' (obj_get organizer ''_id'') p) =
            ''The event '' @ [CHR 0x22] @ t @ [CHR 0x22]
              @ '' has been updated. Please kindly check the new details.'' @ [CHR 0x0A]
              @ ''              We look forward to your participation.'' @ [CHR 0x0A]
              @ ''                '' @ [CHR 0x0A]
              @ ''              Regards,'' @ [CHR 0x0A]
              @ ''                '' @ [CHR 0x0A]
              @ ''              '' @ f @ '' '' @ l @ '','' @ [CHR 0x0A]
              @ ''              '' @ e"
    by blast
  from u ue have ti: "obj_get updatedEvent ''title'' = JStr ''Fair''" and og': "organizer' = user_ann"
    by auto
  from e ex have og: "organizer = user_ann"
    by simp
  note mm = m[of "''Fair''" "''Ann''" "''Lee''" "''ann@x.org''", unfolded og' og o, OF conjI[OF ti conjI[OF refl conjI[OF refl refl]]]]
  note ff = f[unfolded og' og o]
  have nn: "notifications (db (snd (updateEvent env_s3 req_title world_gala))) =
      [build_notification (engine env_s3) updatedEvent user_ann (JStr ''u1'') part_bob,
       build_notification (engine env_s3) updatedEvent user_ann (JStr ''u1'') part_cy]"
    using n by (simp add: a n0 og og' o)
  have 1: "tx (snd (updateEvent env_s3 req_title world_gala)) = TxCommitted"
    by (rule c)
  have 2: "map (\<lambda>ev. obj_get ev ''title'') (events (db (snd (updateEvent env_s3 req_title world_gala)))) = [JStr ''Fair'']"
    by (simp only: c t)
  have 3: "length (notifications (db (snd (updateEvent env_s3 req_title world_gala)))) = 2"
    by (simp add: nn)
  have 4: "map userId (notifications (db (snd (updateEvent env_s3 req_title world_gala)))) = [JStr ''u2'', JStr ''u3'']"
    "map relatedId (notifications (db (snd (updateEvent env_s3 req_title world_gala)))) = [JStr ''p1'', JStr ''p2'']"
    "map ntype (notifications (db (snd (updateEvent env_s3 req_title world_gala)))) = [''eventUpdate'', ''eventUpdate'']"
    "map notificationSender (notifications (db (snd (updateEvent env_s3 req_title world_gala)))) = [JStr ''u1'', JStr ''u1'']"
    "map isRead (notifications (db (snd (updateEvent env_s3 req_title world_gala)))) = [False, False]"
    by (simp_all add: nn ff ps)
  have 5: "map message (notifications (db (snd (updateEvent env_s3 req_title world_gala)))) =
     [''Event '' @ [CHR 0x22] @ ''Fair'' @ [CHR 0x22] @ '' has been updated'',
      ''Event '' @ [CHR 0x22] @ ''Fair'' @ [CHR 0x22] @ '' has been updated'']"
    by (simp add: nn mm)
  have 6: "map data_message (notifications (db (snd (updateEvent env_s3 req_title world_gala)))) =
     [''The event '' @ [CHR 0x22] @ ''Fair'' @ [CHR 0x22]
        @ '' has been updated. Please kindly check the new details.'' @ [CHR 0x0A]
        @ ''              We look forward to your participation.'' @ [CHR 0x0A]
        @ ''                '' @ [CHR 0x0A]
        @ ''              Regards,'' @ [CHR 0x0A]
        @ ''                '' @ [CHR 0x0A]
        @ ''              Ann Lee,'' @ [CHR 0x0A]
        @ ''              ann@x.org'',
      ''The event '' @ [CHR 0x22] @ ''Fair'' @ [CHR 0x22]
        @ '' has been updated. Please kindly check the new details.'' @ [CHR 0x0A]
        @ ''              We look forward to your participation.'' @ [CHR 0x0A]
        @ ''                '' @ [CHR 0x0A]
        @ ''              Regards,'' @ [CHR 0x0A]
        @ ''                '' @ [CHR 0x0A]
        @ ''              Ann Lee,'' @ [CHR 0x0A]
        @ ''              ann@x.org'']"
    by (simp add: nn mm)
  from h u o 1 2 3 4 5 6 show ?thesis
    by (intro conjI)
qed


lemma no_file_image_unchanged:
  assumes "req_file req = None"
  shows "map (\<lambda>ev. obj_get ev ''image'') (events (db (snd (updateEvent env req w))))
           = map (\<lambda>ev. obj_get ev ''image'') (events (db w)) \<and>
         (\<forall>ev. obj_get (updateData_of req ev (uploaded_key env req)) ''image'' = obj_get (fst ev) ''image'')"
proof -
  have k: "uploaded_key env req = JNull"
    using assms by (simp add: uploaded_key_def)
  have ud: "\<And>ev. obj_get (updateData_of req ev (uploaded_key env req)) ''image'' = obj_get (fst ev) ''image''"
    by (simp add: updateData_image k js_or_def)
  have "map (\<lambda>ev. obj_get ev ''image'') (events (committed_db env req (db w)))
          = map (\<lambda>ev. obj_get ev ''image'') (events (db w))"
  proof (cases "find (has_id (params_eventId req)) (events (db w))")
    case None
    then show ?thesis
      by (simp add: committed_db_def update_first_no_match)
  next
    case (Some ev)
    have "proposed_update env req (db w) = updateData_of req (populate (db w) ev) (uploaded_key env req)"
      by (simp add: proposed_update_def existing_event_def Some)
    with ud[of "populate (db w) ev"]
    have "obj_get (proposed_update env req (db w)) ''image'' = obj_get ev ''image''"
      by (simp add: populate_def)
    then have "obj_get (apply_set (proposed_update env req (db w)) ev) ''image'' = obj_get ev ''image''"
      by (rule apply_set_same)
    with Some show ?thesis
      by (simp add: committed_db_def map_update_first)
  qed
  with updateEvent_run[of env req w] ud show ?thesis
    by (cases "update_succeeds env req (db w) (files w)") auto
qed


lemma list_all2_update_first:
  assumes "find P xs = Some x" and "R x (f x)" and "\<And>y. R y y"
  shows "list_all2 R xs (update_first P f xs)"
  using assms(1,2)
proof (induction xs)
  case Nil
  then show ?case by simp
next
  case (Cons a xs)
  then show ?case
    by (auto simp: assms(3) list_all2_refl split: if_splits)
qed

lemma image_stays_truthy:
  assumes "js_truthy (obj_get doc ''image'')"
  shows "js_truthy (obj_get (apply_set (updateData_of req (doc, org) k) doc) ''image'')"
proof -
  have v: "js_truthy (js_or k (obj_get doc ''image''))"
    using assms by (simp add: js_or_def)
  have "map_of (updateData_of req (doc, org) k) ''image'' = Some (js_or k (obj_get doc ''image''))"
    by (simp add: updateData_of_def update_conv')
  with v show ?thesis
    by (auto simp: apply_set_get)
qed

text \<open>
  C9. An update request that carries no file leaves the image key of every stored event as
  it was, whatever the request's body says: the \<open>image\<close> of the update object is the
  existing one, for any \<open>image\<close> field of the body. With or without a file, an image key
  that is set stays set: the update object's image is truthy when the existing one is,
  and so is the stored image of every event after the request.
\<close>

theorem update_without_file_keeps_image:
  "(req_file req = None \<longrightarrow>
      map (\<lambda>ev. obj_get ev ''image'') (events (db (snd (updateEvent env req w))))
        = map (\<lambda>ev. obj_get ev ''image'') (events (db w)) \<and>
      (\<forall>ev. obj_get (updateData_of req ev (uploaded_key env req)) ''image'' = obj_get (fst ev) ''image'')) \<and>
   (\<forall>ev k. js_truthy (obj_get (fst ev) ''image'') \<longrightarrow>
      js_truthy (obj_get (updateData_of req ev k) ''image'')) \<and>
   list_all2 (\<lambda>old new. js_truthy (obj_get old ''image'') \<longrightarrow> js_truthy (obj_get new ''image''))
     (events (db w)) (events (db (snd (updateEvent env req w))))"
proof -
  have a: "map (\<lambda>ev. obj_get ev ''image'') (events (db (snd (updateEvent env req w))))
        = map (\<lambda>ev. obj_get ev ''image'') (events (db w)) \<and>
      (\<forall>ev. obj_get (updateData_of req ev (uploaded_key env req)) ''image'' = obj_get (fst ev) ''image'')"
    if "req_file req = None"
    using no_file_image_unchanged[OF that] .
  have b: "js_truthy (obj_get (fst ev) ''image'') \<Longrightarrow>
      js_truthy (obj_get (updateData_of req ev k) ''image'')" for ev k
    by (simp add: updateData_image js_or_def)
  have c: "list_all2 (\<lambda>old new. js_truthy (obj_get old ''image'') \<longrightarrow> js_truthy (obj_get new ''image''))
     (events (db w)) (events (committed_db env req (db w)))"
  proof (cases "find (has_id (params_eventId req)) (events (db w))")
    case None
    then show ?thesis
      by (simp add: committed_db_def update_first_no_match list_all2_refl)
  next
    case (Some ev)
    then have pu: "proposed_update env req (db w)
        = updateData_of req (ev, snd (populate (db w) ev)) (uploaded_key env req)"
      by (simp add: proposed_update_def existing_event_def populate_def)
    show ?thesis
      unfolding committed_db_def pu
      by (simp, rule list_all2_update_first[OF Some]) (auto intro: image_stays_truthy)
  qed
  have d: "list_all2 (\<lambda>old new. js_truthy (obj_get old ''image'') \<longrightarrow> js_truthy (obj_get new ''image''))
     (events (db w)) (events (db (snd (updateEvent env req w))))"
    using updateEvent_run[of env req w] c
    by (cases "update_succeeds env req (db w) (files w)") (auto simp: list_all2_refl)
  from a b d show ?thesis by blast
qed

theorem update_without_file_keeps_image_witness:
  "req_file req_clear_image = None \<and>
   map (\<lambda>ev. obj_get ev ''image'') (events (db (snd (updateEvent env_s3 req_clear_image world_gala))))
     = [JStr ''uploads/old'']"
  using update_without_file_keeps_image[of req_clear_image env_s3 world_gala]
  by (simp add: example_defs notion_defs)


subsection \<open>Creating\<close>

lemma upload_image_run:
  assumes "upload_image env f w = (r, w')" and "req_file req = Some f"
  shows "db w' = db w \<and> (case r of Inl e \<Rightarrow> True | Inr k \<Rightarrow> k = uploaded_key env req)"
  using assms
  by (auto simp: upload_image_def uploadToS3_def s3_send_put_def uploadToCloudinary_def
      unlinkSync_def uploaded_key_def io_defs Let_def
      split: sum.splits option.splits if_splits)

lemma save_and_respond_run:
  assumes "save_and_respond env req newEvent w = (r, w')"
  shows "case r of
      Inl e \<Rightarrow> True
    | Inr x \<Rightarrow> status_code x = 201 \<and> (\<forall>m. json_body x \<noteq> JsonMessage m) \<and>
              events (db w') = events (db w) @ [newEvent]"
  using assms
  by (auto simp: save_and_respond_def Event_save_def logActivity_def Event_findById_def
      addSignedUrlsToEvent_def sign_event_def getSignedUrlForKey_def
      db_call_def io_defs Let_def
      split: sum.splits option.splits if_splits)

lemma validate_and_save_run:
  assumes "validate_and_save env req k w = (r, w')" and "k = uploaded_key env req"
  shows "case r of
      Inl e \<Rightarrow> True
    | Inr x \<Rightarrow>
       (\<forall>m. json_body x = JsonMessage m \<longrightarrow>
          (\<exists>c. ceiling_of (db w) = Some c \<and> over_ceiling (engine env) (obj_get (body req) ''maxAttendees'') c \<and>
               status_code x = 500 \<and> m = ''Maximum capacity exceeded. System limit: '' @ to_string (engine env) c)) \<and>
       (status_code x = 201 \<longrightarrow>
          (\<exists>c. ceiling_of (db w) = Some c \<and>
               \<not> over_ceiling (engine env) (obj_get (body req) ''maxAttendees'') c \<and>
               events (db w') = events (db w) @ [created_event env req c]))"
  using assms
  by (auto simp: validate_and_save_def created_event_def
      Settings_findOne_def db_call_def io_defs Let_def ceiling_of_def over_ceiling_def
      split: sum.splits option.splits if_splits
      dest!: save_and_respond_run)

lemma createEvent_run:
  "\<exists>x w'. createEvent env req w = (Inr x, w') \<and>
       (\<forall>m. json_body x = JsonMessage m \<longrightarrow>
          (\<exists>c. ceiling_of (db w) = Some c \<and> over_ceiling (engine env) (obj_get (body req) ''maxAttendees'') c \<and>
               status_code x = 500 \<and> m = ''Maximum capacity exceeded. System limit: '' @ to_string (engine env) c)) \<and>
       (status_code x = 201 \<longrightarrow>
          (\<exists>c. ceiling_of (db w) = Some c \<and>
               \<not> over_ceiling (engine env) (obj_get (body req) ''maxAttendees'') c \<and>
               events (db w') = events (db w) @ [created_event env req c]))"
proof -
  define up where "up = (case req_file req of None \<Rightarrow> ret JNull | Some f \<Rightarrow> upload_image env f)"
  obtain r1 w1 where u: "up w = (r1, w1)"
    by (cases "up w")
  have u1: "db w1 = db w \<and> (case r1 of Inl e \<Rightarrow> True | Inr k \<Rightarrow> k = uploaded_key env req)"
  proof (cases "req_file req")
    case None
    with u show ?thesis by (auto simp: up_def ret_def uploaded_key_def)
  next
    case (Some f)
    with u upload_image_run[of env f w r1 w1 req] show ?thesis by (simp add: up_def)
  qed
  have unl: "\<exists>w'. unlink_temp req v = (Inr (), w')" for v
    using unlink_temp_run[of req v] by blast
  show ?thesis
  proof (cases r1)
    case (Inl e)
    with u unl[of w1] show ?thesis
      by (auto simp: createEvent_def createEvent_try_def io_defs up_def[symmetric])
  next
    case (Inr k)
    with u1 have k: "k = uploaded_key env req" and d1: "db w1 = db w" by auto
    obtain r2 w2 where v: "validate_and_save env req k w1 = (r2, w2)"
      by (cases "validate_and_save env req k w1")
    note vr = validate_and_save_run[OF v k]
    show ?thesis
    proof (cases r2)
      case (Inl e)
      with u Inr v unl[of w2] show ?thesis
        by (auto simp: createEvent_def createEvent_try_def io_defs up_def[symmetric])
    next
      case r2: (Inr x)
      with u Inr v vr d1 show ?thesis
        by (auto simp: createEvent_def createEvent_try_def io_defs up_def[symmetric])
    qed
  qed
qed


lemma created_event_maxAttendees:
  "obj_get (created_event env req c) ''maxAttendees'' = js_or (obj_get (body req) ''maxAttendees'') c"
  by (simp add: created_event_def new_Event_def obj_get_update)

lemmas create_defs = createEvent_def createEvent_try_def validate_and_save_def save_and_respond_def
  Settings_findOne_def Event_save_def logActivity_def Event_findById_def new_Event_def
  addSignedUrlsToEvent_def sign_event_def getSignedUrlForKey_def storageType_def populate_def
  db_call_def io_defs Let_def obj_get_def js_or_def unlink_temp_def


text \<open>
  C10. When the \<open>maxAttendees\<close> of a request is falsy (absent, the numbers 0, -0 and
  NaN and the empty string are), the capacity test is false whatever the ceiling, so neither the update nor
  the create handler answers with its capacity error, the only answer of either whose
  body is a bare message; and a create request that is answered with 201 has stored an
  event whose \<open>maxAttendees\<close> is the ceiling.
\<close>

theorem falsy_maxAttendees_skips_capacity_check:
  assumes "\<not> js_truthy (obj_get (body req) ''maxAttendees'')"
  shows "(\<forall>c. \<not> over_ceiling (engine env) (obj_get (body req) ''maxAttendees'') c) \<and>
     (\<exists>x. fst (updateEvent env req w) = Inr x \<and> (\<forall>m. json_body x \<noteq> JsonMessage m)) \<and>
     (\<exists>x. fst (createEvent env req w) = Inr x \<and> (\<forall>m. json_body x \<noteq> JsonMessage m) \<and>
          (status_code x = 201 \<longrightarrow>
             (\<exists>c doc. ceiling_of (db w) = Some c \<and>
                events (db (snd (createEvent env req w))) = events (db w) @ [doc] \<and>
                obj_get doc ''maxAttendees'' = c))) \<and>
     \<not> js_truthy JUndefined \<and> \<not> js_truthy (JNum 0) \<and> \<not> js_truthy (JStr []) \<and>
     \<not> js_truthy (JNum 0x8000000000000000) \<and> \<not> js_truthy (JNum double_nan)"
proof -
  have no: "\<not> over_ceiling (engine env) (obj_get (body req) ''maxAttendees'') c" for c
    using assms by (simp add: over_ceiling_def)
  have u: "\<exists>x. fst (updateEvent env req w) = Inr x \<and> (\<forall>m. json_body x \<noteq> JsonMessage m)"
    using updateEvent_run[of env req w] no
    by (auto simp: capacity_reason_def)
  obtain x w' where c: "createEvent env req w = (Inr x, w')"
    and cm: "\<forall>m. json_body x = JsonMessage m \<longrightarrow>
          (\<exists>c. ceiling_of (db w) = Some c \<and> over_ceiling (engine env) (obj_get (body req) ''maxAttendees'') c \<and>
               status_code x = 500 \<and> m = ''Maximum capacity exceeded. System limit: '' @ to_string (engine env) c)"
    and cs: "status_code x = 201 \<longrightarrow>
          (\<exists>c. ceiling_of (db w) = Some c \<and>
               \<not> over_ceiling (engine env) (obj_get (body req) ''maxAttendees'') c \<and>
               events (db w') = events (db w) @ [created_event env req c])"
    using createEvent_run[of env req w] by blast
  have "obj_get (created_event env req c) ''maxAttendees'' = c" for c
    using assms by (simp add: created_event_maxAttendees js_or_def)
  with c cm cs no
  have "\<exists>x. fst (createEvent env req w) = Inr x \<and> (\<forall>m. json_body x \<noteq> JsonMessage m) \<and>
          (status_code x = 201 \<longrightarrow>
             (\<exists>c doc. ceiling_of (db w) = Some c \<and>
                events (db (snd (createEvent env req w))) = events (db w) @ [doc] \<and>
                obj_get doc ''maxAttendees'' = c))"
    by auto
  with no u show ?thesis by (simp add: magnitude_def is_nan_def double_nan_def)
qed

theorem falsy_maxAttendees_skips_capacity_check_witness:
  "\<not> js_truthy (obj_get (body req_zero) ''maxAttendees'') \<and>
   (\<exists>x. fst (createEvent env_s3 req_zero world_gala) = Inr x \<and> status_code x = 201 \<and>
        (\<forall>m. json_body x \<noteq> JsonMessage m)) \<and>
   (\<exists>doc. events (db (snd (createEvent env_s3 req_zero world_gala))) = events (db world_gala) @ [doc] \<and>
        obj_get doc ''maxAttendees'' = JNum double_100) \<and>
   (\<exists>x. fst (updateEvent env_s3 req_zero world_gala) = Inr x \<and> (\<forall>m. json_body x \<noteq> JsonMessage m))"
proof -
  have f: "\<not> js_truthy (obj_get (body req_zero) ''maxAttendees'')"
    by (simp add: example_defs obj_get_def magnitude_def)
  have e: "\<exists>x. fst (createEvent env_s3 req_zero world_gala) = Inr x \<and> status_code x = 201"
    by (simp add: create_defs example_defs magnitude_def)
  have c: "ceiling_of (db world_gala) = Some (JNum double_100)"
    by (simp add: example_defs ceiling_of_def)
  from falsy_maxAttendees_skips_capacity_check[OF f, of env_s3 world_gala] f e c show ?thesis
    by auto
qed


text \<open>
  C7, as the code has it. \<open>deleteFromS3\<close> never raises. It returns false exactly when the
  key is falsy or the S3 client raises on the request, and true otherwise: the function
  does not look whether an object is stored under the key.
\<close>

theorem deleteFromS3_never_raises: "\<exists>w'. deleteFromS3 env key w =
     (Inr (js_truthy key \<and> s3_delete_error env (to_string (engine env) key) = None), w')"
  by (simp add: deleteFromS3_def s3_send_delete_def io_defs split: option.splits)


text \<open>
  C7 as stated fails: for a key under which the bucket holds nothing, and an S3 client
  that answers the deletion without raising, \<open>deleteFromS3\<close> returns true.
\<close>

theorem deleteFromS3_missing_key_counterexample:
  "''uploads/ghost'' \<notin> set (bucket world_gala) \<and>
   fst (deleteFromS3 env_s3 (JStr ''uploads/ghost'') world_gala) = Inr True"
  by (simp add: deleteFromS3_def s3_send_delete_def io_defs example_defs)


text \<open>
  C8. \<open>getSignedUrlForKey\<close> never raises: it returns null when the key is falsy or the
  presigner raises, and otherwise the URL the presigner gives for this key and the
  expiry (3600 seconds when none is given).
\<close>

theorem getSignedUrlForKey_null_or_url: "\<exists>w'. getSignedUrlForKey env key ttl w =
     (Inr (if \<not> js_truthy key then JNull
           else case getSignedUrl env (to_string (engine env) key) (case ttl of None \<Rightarrow> 3600 | Some n \<Rightarrow> n) of
                  Inl e \<Rightarrow> JNull | Inr url \<Rightarrow> JStr url), w')"
  by (simp add: getSignedUrlForKey_def io_defs split: sum.splits)


subsection \<open>Listing and deleting\<close>












lemma deleteOldImage_run:
  "\<exists>w'. deleteOldImage env k w = (Inr (), w') \<and> db w' = db w \<and> staged w' = staged w \<and>
        tx w' = tx w \<and> files w' = files w"
  by (auto simp: deleteOldImage_def deleteFromS3_def s3_send_delete_def io_defs split: option.splits)
















subsection \<open>The order of the effects of an update\<close>

lemma after_commit_append_quiet:
  "list_all not_commit xs \<Longrightarrow> after_commit (xs @ ys) = after_commit ys"
  by (induction xs) (auto simp: after_commit_def)

lemma after_commit_quiet: "list_all not_commit xs \<Longrightarrow> after_commit xs = []"
  by (induction xs) (auto simp: after_commit_def)

lemma list_all_after_commit:
  "list_all P xs \<Longrightarrow> list_all P (after_commit xs)"
  by (induction xs) (auto simp: after_commit_def)

lemma after_commit_append_clean:
  "list_all P (after_commit xs) \<Longrightarrow> list_all P ys \<Longrightarrow> list_all P (after_commit (xs @ ys))"
  by (induction xs) (auto simp: after_commit_def list_all_after_commit[unfolded after_commit_def])

lemma no_commit_bind:
  assumes "no_commit m" and "\<And>a. no_commit (f a)"
  shows "no_commit (bind m f)"
  unfolding no_commit_def emits_def
proof
  fix w
  from assms(1) obtain e1 where 1: "trace (snd (m w)) = trace w @ e1" "list_all not_commit e1"
    by (auto simp: no_commit_def emits_def)
  show "\<exists>es. trace (snd (bind m f w)) = trace w @ es \<and> list_all not_commit es"
  proof (cases "m w")
    case (Pair r w1)
    show ?thesis
    proof (cases r)
      case (Inl e)
      with Pair 1 show ?thesis by (auto simp: bind_def)
    next
      case (Inr a)
      from assms(2)[of a] obtain e2 where "trace (snd (f a w1)) = trace w1 @ e2" "list_all not_commit e2"
        by (auto simp: no_commit_def emits_def)
      with Pair Inr 1 show ?thesis by (auto simp: bind_def)
    qed
  qed
qed

lemma no_delete_bind:
  assumes "no_delete m" and "\<And>a. no_delete (f a)"
  shows "no_delete (bind m f)"
  unfolding no_delete_def emits_def
proof
  fix w
  from assms(1) obtain e1 where 1: "trace (snd (m w)) = trace w @ e1" "list_all (\<lambda>e. \<not> is_delete e) e1"
    by (auto simp: no_delete_def emits_def)
  show "\<exists>es. trace (snd (bind m f w)) = trace w @ es \<and> list_all (\<lambda>e. \<not> is_delete e) es"
  proof (cases "m w")
    case (Pair r w1)
    show ?thesis
    proof (cases r)
      case (Inl e)
      with Pair 1 show ?thesis by (auto simp: bind_def)
    next
      case (Inr a)
      from assms(2)[of a] obtain e2 where "trace (snd (f a w1)) = trace w1 @ e2" "list_all (\<lambda>e. \<not> is_delete e) e2"
        by (auto simp: no_delete_def emits_def)
      with Pair Inr 1 show ?thesis by (auto simp: bind_def)
    qed
  qed
qed

lemma deletes_before_commit_bind:
  assumes "no_commit m" and "\<And>a. deletes_before_commit (f a)"
  shows "deletes_before_commit (bind m f)"
  unfolding deletes_before_commit_def emits_def
proof
  fix w
  from assms(1) obtain e1 where 1: "trace (snd (m w)) = trace w @ e1" "list_all not_commit e1"
    by (auto simp: no_commit_def emits_def)
  show "\<exists>es. trace (snd (bind m f w)) = trace w @ es \<and> list_all (\<lambda>e. \<not> is_delete e) (after_commit es)"
  proof (cases "m w")
    case (Pair r w1)
    show ?thesis
    proof (cases r)
      case (Inl e)
      with Pair 1 show ?thesis
        by (auto simp: bind_def after_commit_quiet)
    next
      case (Inr a)
      from assms(2)[of a] obtain e2 where "trace (snd (f a w1)) = trace w1 @ e2"
        "list_all (\<lambda>e. \<not> is_delete e) (after_commit e2)"
        by (auto simp: deletes_before_commit_def emits_def)
      with Pair Inr 1 show ?thesis by (auto simp: bind_def after_commit_append_quiet)
    qed
  qed
qed

lemma no_delete_imp: "no_delete m \<Longrightarrow> deletes_before_commit m"
  unfolding no_delete_def deletes_before_commit_def emits_def
  by (meson list_all_after_commit)

lemma no_commit_imp: "no_commit m \<Longrightarrow> deletes_before_commit m"
  unfolding no_commit_def deletes_before_commit_def emits_def
  by (metis after_commit_quiet list.pred_inject(1))

lemma deletes_before_commit_try_catch:
  assumes "deletes_before_commit m" and "\<And>e. no_delete (h e)"
  shows "deletes_before_commit (try_catch m h)"
  unfolding deletes_before_commit_def emits_def
proof
  fix w
  from assms(1) obtain e1 where 1: "trace (snd (m w)) = trace w @ e1"
    "list_all (\<lambda>e. \<not> is_delete e) (after_commit e1)"
    by (auto simp: deletes_before_commit_def emits_def)
  show "\<exists>es. trace (snd (try_catch m h w)) = trace w @ es \<and> list_all (\<lambda>e. \<not> is_delete e) (after_commit es)"
  proof (cases "m w")
    case (Pair r w1)
    show ?thesis
    proof (cases r)
      case (Inr a)
      with Pair 1 show ?thesis by (auto simp: try_catch_def)
    next
      case (Inl e)
      from assms(2)[of e] obtain e2 where "trace (snd (h e w1)) = trace w1 @ e2"
        "list_all (\<lambda>e. \<not> is_delete e) e2"
        by (auto simp: no_delete_def emits_def)
      with Pair Inl 1 show ?thesis by (auto simp: try_catch_def after_commit_append_clean)
    qed
  qed
qed

lemma deletes_before_commit_try_finally:
  assumes "deletes_before_commit m" and "no_delete f"
  shows "deletes_before_commit (try_finally m f)"
  unfolding deletes_before_commit_def emits_def
proof
  fix w
  from assms(1) obtain e1 where 1: "trace (snd (m w)) = trace w @ e1"
    "list_all (\<lambda>e. \<not> is_delete e) (after_commit e1)"
    by (auto simp: deletes_before_commit_def emits_def)
  obtain r w1 where m: "m w = (r, w1)" by (cases "m w")
  from assms(2) obtain e2 where "trace (snd (f w1)) = trace w1 @ e2" "list_all (\<lambda>e. \<not> is_delete e) e2"
    by (auto simp: no_delete_def emits_def)
  with m 1 show "\<exists>es. trace (snd (try_finally m f w)) = trace w @ es \<and>
      list_all (\<lambda>e. \<not> is_delete e) (after_commit es)"
    by (cases "f w1") (auto simp: try_finally_def after_commit_append_clean split: sum.splits)
qed


lemma no_commit_ret: "no_commit (ret a)" and no_delete_ret: "no_delete (ret a)"
  and no_commit_throw: "no_commit (throw e)" and no_delete_throw: "no_delete (throw e)"
  by (simp_all add: no_commit_def no_delete_def emits_def ret_def throw_def)

lemma quiet_db_call: "no_commit (db_call env c)" "no_delete (db_call env c)"
  by (simp_all add: db_call_def no_commit_def no_delete_def emits_def ret_def throw_def split: option.splits)

lemma quiet_abort: "no_commit abortTransaction" "no_delete abortTransaction"
  by (simp_all add: abortTransaction_def no_commit_def no_delete_def emits_def not_commit_def)

lemma quiet_start: "no_commit startTransaction" "no_delete startTransaction"
  by (simp_all add: startTransaction_def no_commit_def no_delete_def emits_def not_commit_def)

lemma quiet_end: "no_delete endSession"
  by (simp add: endSession_def emit_def no_delete_def emits_def)

lemma quiet_findById: "no_commit (Event_findById_session env i)"
  by (simp add: Event_findById_session_def db_call_def no_commit_def emits_def io_defs split: option.splits)

lemma quiet_settings: "no_commit (Settings_findOne env)"
  by (simp add: Settings_findOne_def db_call_def no_commit_def emits_def io_defs split: option.splits)

lemma quiet_unlink: "no_delete (unlink_temp req)"
  unfolding no_delete_def emits_def
proof
  fix w
  from unlink_temp_run[of req w] obtain w' where "unlink_temp req w = (Inr (), w')"
    "trace w' = trace w @ effects_of w w'"
    "list_all (\<lambda>e. not_commit e \<and> \<not> is_delete e) (effects_of w w')"
    by blast
  then show "\<exists>es. trace (snd (unlink_temp req w)) = trace w @ es \<and> list_all (\<lambda>e. \<not> is_delete e) es"
    by (auto simp: list_all_iff)
qed

lemma quiet_replace_media: "no_commit (replace_media env req ev)"
  unfolding no_commit_def emits_def
proof
  fix w
  obtain r w' where m: "replace_media env req ev w = (r, w')" by (cases "replace_media env req ev w")
  from replace_media_run[OF m] m
  show "\<exists>es. trace (snd (replace_media env req ev w)) = trace w @ es \<and> list_all not_commit es"
    by auto
qed

lemma quiet_persist_and_commit: "no_delete (persist_and_commit env req ev oid upd)"
  unfolding no_delete_def emits_def
proof
  fix w
  obtain r w' where m: "persist_and_commit env req ev oid upd w = (r, w')"
    by (cases "persist_and_commit env req ev oid upd w")
  from persist_and_commit_run[OF m] m
  show "\<exists>es. trace (snd (persist_and_commit env req ev oid upd w)) = trace w @ es \<and>
      list_all (\<lambda>e. \<not> is_delete e) es"
    by auto
qed

lemma ordered_ret: "deletes_before_commit (ret a)"
  by (rule no_commit_imp) (rule no_commit_ret)

lemma ordered_throw: "deletes_before_commit (throw e)"
  by (rule no_commit_imp) (rule no_commit_throw)

lemma ordered_validate_and_persist: "deletes_before_commit (validate_and_persist env req ev k)"
  unfolding validate_and_persist_def Let_def
  by (auto intro!: deletes_before_commit_bind ordered_ret ordered_throw
      quiet_settings quiet_abort(1) no_delete_imp[OF quiet_persist_and_commit]
      split: option.splits)

lemma ordered_updateEvent_try: "deletes_before_commit (updateEvent_try env req)"
  unfolding updateEvent_try_def
  by (auto intro!: deletes_before_commit_bind quiet_findById quiet_replace_media
      ordered_validate_and_persist quiet_abort(1) ordered_ret
      split: option.splits)

lemma ordered_updateEvent: "deletes_before_commit (updateEvent env req)"
  unfolding updateEvent_def
  by (intro deletes_before_commit_bind quiet_start deletes_before_commit_try_finally
      deletes_before_commit_try_catch ordered_updateEvent_try no_delete_bind quiet_abort
      quiet_unlink no_delete_ret quiet_end)


subsection \<open>An update does not depend on how deletions end\<close>

lemma same_ret: "same_outcome (ret a) (ret a)" and same_throw: "same_outcome (throw e) (throw e)"
  by (simp_all add: same_outcome_def ret_def throw_def)

lemma same_bind:
  assumes "same_outcome m1 m2" and "\<And>a. same_outcome (f1 a) (f2 a)"
  shows "same_outcome (bind m1 f1) (bind m2 f2)"
  unfolding same_outcome_def
proof (intro allI impI)
  fix w1 w2 assume a: "agree w1 w2"
  obtain r1 v1 where 1: "m1 w1 = (r1, v1)" by (cases "m1 w1")
  obtain r2 v2 where 2: "m2 w2 = (r2, v2)" by (cases "m2 w2")
  from assms(1)[unfolded same_outcome_def, rule_format, OF a] 1 2
  have r: "r1 = r2" and v: "agree v1 v2"
    by simp_all
  show "fst (bind m1 f1 w1) = fst (bind m2 f2 w2) \<and> agree (snd (bind m1 f1 w1)) (snd (bind m2 f2 w2))"
  proof (cases r1)
    case (Inl e)
    with 1 2 r v show ?thesis by (auto simp: bind_def)
  next
    case (Inr x)
    with 1 2 r v assms(2)[of x, unfolded same_outcome_def, rule_format, of v1 v2] show ?thesis
      by (auto simp: bind_def)
  qed
qed

lemma same_try_catch:
  assumes "same_outcome m1 m2" and "\<And>e. same_outcome (h1 e) (h2 e)"
  shows "same_outcome (try_catch m1 h1) (try_catch m2 h2)"
  unfolding same_outcome_def
proof (intro allI impI)
  fix w1 w2 assume a: "agree w1 w2"
  obtain r1 v1 where 1: "m1 w1 = (r1, v1)" by (cases "m1 w1")
  obtain r2 v2 where 2: "m2 w2 = (r2, v2)" by (cases "m2 w2")
  from assms(1)[unfolded same_outcome_def, rule_format, OF a] 1 2
  have r: "r1 = r2" and v: "agree v1 v2"
    by simp_all
  show "fst (try_catch m1 h1 w1) = fst (try_catch m2 h2 w2) \<and>
      agree (snd (try_catch m1 h1 w1)) (snd (try_catch m2 h2 w2))"
  proof (cases r1)
    case (Inr x)
    with 1 2 r v show ?thesis by (auto simp: try_catch_def)
  next
    case (Inl e)
    with 1 2 r v assms(2)[of e, unfolded same_outcome_def, rule_format, of v1 v2] show ?thesis
      by (auto simp: try_catch_def)
  qed
qed

lemma same_try_finally:
  assumes "same_outcome m1 m2" and "same_outcome f1 f2"
  shows "same_outcome (try_finally m1 f1) (try_finally m2 f2)"
  unfolding same_outcome_def
proof (intro allI impI)
  fix w1 w2 assume a: "agree w1 w2"
  obtain r1 v1 where 1: "m1 w1 = (r1, v1)" by (cases "m1 w1")
  obtain r2 v2 where 2: "m2 w2 = (r2, v2)" by (cases "m2 w2")
  from assms(1)[unfolded same_outcome_def, rule_format, OF a] 1 2
  have r: "r1 = r2" and v: "agree v1 v2"
    by simp_all
  obtain s1 u1 where 3: "f1 v1 = (s1, u1)" by (cases "f1 v1")
  obtain s2 u2 where 4: "f2 v2 = (s2, u2)" by (cases "f2 v2")
  from assms(2)[unfolded same_outcome_def, rule_format, OF v] 3 4
  have "s1 = s2" and "agree u1 u2"
    by simp_all
  with 1 2 3 4 r show "fst (try_finally m1 f1 w1) = fst (try_finally m2 f2 w2) \<and>
      agree (snd (try_finally m1 f1 w1)) (snd (try_finally m2 f2 w2))"
    by (cases s2) (auto simp: try_finally_def)
qed

lemmas same_defs = same_outcome_def agree_def db_call_def io_defs

lemma same_prims:
  "same_outcome startTransaction startTransaction"
  "same_outcome abortTransaction abortTransaction"
  "same_outcome endSession endSession"
  "same_outcome (commitTransaction env) (commitTransaction (env\<lparr>s3_delete_error := f\<rparr>))"
  "same_outcome (Event_findById_session env i) (Event_findById_session (env\<lparr>s3_delete_error := f\<rparr>) i)"
  "same_outcome (Settings_findOne env) (Settings_findOne (env\<lparr>s3_delete_error := f\<rparr>))"
  "same_outcome (Event_findByIdAndUpdate_session env i upd)
     (Event_findByIdAndUpdate_session (env\<lparr>s3_delete_error := f\<rparr>) i upd)"
  "same_outcome (Participation_find_session env i) (Participation_find_session (env\<lparr>s3_delete_error := f\<rparr>) i)"
  "same_outcome (Notification_create_session env docs)
     (Notification_create_session (env\<lparr>s3_delete_error := f\<rparr>) docs)"
  "same_outcome (logActivity env a b c d e) (logActivity (env\<lparr>s3_delete_error := f\<rparr>) a b c d e)"
  "same_outcome (unlink_temp req) (unlink_temp req)"
  "same_outcome (addSignedUrlsToEvent env ev) (addSignedUrlsToEvent (env\<lparr>s3_delete_error := f\<rparr>) ev)"
  by (auto simp: same_defs startTransaction_def abortTransaction_def endSession_def commitTransaction_def
      Event_findById_session_def Settings_findOne_def Event_findByIdAndUpdate_session_def
      Participation_find_session_def Notification_create_session_def logActivity_def
      unlink_temp_def unlinkSync_def existsSync_def addSignedUrlsToEvent_def sign_event_def
      getSignedUrlForKey_def storageType_def Let_def
      split: option.splits sum.splits)

lemma same_upload_image:
  "same_outcome (upload_image env file) (upload_image (env\<lparr>s3_delete_error := f\<rparr>) file)"
  by (auto simp: same_defs upload_image_def uploadToS3_def s3_send_put_def
      uploadToCloudinary_def unlinkSync_def storageType_def randomImageName_def Let_def
      split: option.splits sum.splits)

lemma same_deleteOldImage:
  "same_outcome (deleteOldImage env k) (deleteOldImage (env\<lparr>s3_delete_error := f\<rparr>) k)"
  by (auto simp: same_defs deleteOldImage_def deleteFromS3_def s3_send_delete_def storageType_def
      split: option.splits)

lemma same_replace_media:
  "same_outcome (replace_media env req ev) (replace_media (env\<lparr>s3_delete_error := f\<rparr>) req ev)"
  unfolding replace_media_def
  by (auto intro!: same_bind same_ret same_upload_image same_deleteOldImage split: option.splits)

lemma same_persist_and_commit:
  "same_outcome (persist_and_commit env req ev oid upd)
     (persist_and_commit (env\<lparr>s3_delete_error := f\<rparr>) req ev oid upd)"
  unfolding persist_and_commit_def notify_participants_def Let_def
  by (auto intro!: same_bind same_ret same_throw same_prims split: option.splits)

lemma same_validate_and_persist:
  "same_outcome (validate_and_persist env req ev k)
     (validate_and_persist (env\<lparr>s3_delete_error := f\<rparr>) req ev k)"
  unfolding validate_and_persist_def Let_def
  by (auto intro!: same_bind same_ret same_throw same_prims same_persist_and_commit split: option.splits)

lemma same_updateEvent:
  "same_outcome (updateEvent env req) (updateEvent (env\<lparr>s3_delete_error := f\<rparr>) req)"
  unfolding updateEvent_def updateEvent_try_def
  by (auto intro!: same_bind same_try_finally same_try_catch same_ret same_prims same_replace_media
      same_validate_and_persist split: option.splits)


subsection \<open>The first effects of an update with a new image\<close>

lemma try_catch_bind:
  "m w = (Inr a, w1) \<Longrightarrow> try_catch (bind m f) h w = try_catch (f a) h w1"
  by (simp add: try_catch_def bind_def)

lemma replace_media_s3_run:
  assumes "req_file req = Some file" and "storageType env = ''s3''"
    and "s3_put_error env (''uploads/'' @ randomImageName env) = None"
    and "js_truthy (obj_get (fst ev) ''image'')"
  shows "\<exists>w2. replace_media env req ev w = (Inr (JStr (''uploads/'' @ randomImageName env)), w2) \<and>
     trace w2 = trace w @
       [S3Put (''uploads/'' @ randomImageName env),
        S3Delete (to_string (engine env) (obj_get (fst ev) ''image''))
          (s3_delete_error env (to_string (engine env) (obj_get (fst ev) ''image'')) = None)]"
  using assms
  by (auto simp: replace_media_def upload_image_def uploadToS3_def s3_send_put_def deleteOldImage_def
      deleteFromS3_def s3_send_delete_def io_defs Let_def split: option.splits)

lemma updateEvent_first_effects:
  assumes f: "req_file req = Some file" and s3: "storageType env = ''s3''"
    and put: "s3_put_error env (''uploads/'' @ randomImageName env) = None"
    and fe: "db_error env FindEvent = None"
    and ex: "existing_event req (db w) = Some ev"
    and img: "js_truthy (obj_get (fst ev) ''image'')"
  shows "take 3 (effects_of w (snd (updateEvent env req w))) =
     [StartTransaction, S3Put (''uploads/'' @ randomImageName env),
      S3Delete (to_string (engine env) (obj_get (fst ev) ''image''))
        (s3_delete_error env (to_string (engine env) (obj_get (fst ev) ''image'')) = None)]"
proof -
  define w0 where "w0 = w\<lparr>staged := db w, tx := TxActive, trace := trace w @ [StartTransaction]\<rparr>"
  define h where "h = (\<lambda>err. bind abortTransaction
                (\<lambda>_. bind (unlink_temp req)
                (\<lambda>_. ret \<lparr> status_code = 400,
                            json_body = JsonErrorMessage ''Failed to update event'' err \<rparr>)))"
  from replace_media_s3_run[OF f s3 put img, where w = w0]
  obtain w2 where rm: "replace_media env req ev w0 = (Inr (JStr (''uploads/'' @ randomImageName env)), w2)"
    and t2: "trace w2 = trace w0 @
       [S3Put (''uploads/'' @ randomImageName env),
        S3Delete (to_string (engine env) (obj_get (fst ev) ''image''))
          (s3_delete_error env (to_string (engine env) (obj_get (fst ev) ''image'')) = None)]"
    by blast
  from ex fe have fb: "Event_findById_session env (params_eventId req) w0 = (Inr (Some ev), w0)"
    by (auto simp: Event_findById_session_def db_call_def io_defs existing_event_def w0_def)
  have "bind (Event_findById_session env (params_eventId req))
       (\<lambda>existing.
          case existing of
            None \<Rightarrow>
              bind abortTransaction
                (\<lambda>_. ret \<lparr> status_code = 404, json_body = JsonError ''Event not found'' \<rparr>)
          | Some existingEvent \<Rightarrow>
              bind (replace_media env req existingEvent)
                (validate_and_persist env req existingEvent)) w0
      = validate_and_persist env req ev (JStr (''uploads/'' @ randomImageName env)) w2"
    using fb rm by (simp add: bind_def)
  then have "try_catch (updateEvent_try env req) h w0
      = try_catch (validate_and_persist env req ev (JStr (''uploads/'' @ randomImageName env))) h w2"
    by (simp add: try_catch_def updateEvent_try_def)
  then have u: "updateEvent env req w =
     try_finally (try_catch (validate_and_persist env req ev (JStr (''uploads/'' @ randomImageName env))) h)
       endSession w2"
    by (simp add: updateEvent_def startTransaction_def bind_def w0_def[symmetric] h_def[symmetric]
        try_finally_def)
  have "deletes_before_commit
     (try_finally (try_catch (validate_and_persist env req ev (JStr (''uploads/'' @ randomImageName env))) h)
       endSession)"
    unfolding h_def
    by (intro deletes_before_commit_try_finally deletes_before_commit_try_catch
        ordered_validate_and_persist no_delete_bind quiet_abort quiet_unlink no_delete_ret quiet_end)
  then obtain es where "trace (snd (updateEvent env req w)) = trace w2 @ es"
    unfolding deletes_before_commit_def emits_def u by blast
  with t2 show ?thesis
    by (simp add: effects_of_def w0_def)
qed

text \<open>
  C1, as the code has it. In an update, no deletion of a media key happens from the commit
  on: the old key is deleted before it. For a request with a new media payload on the S3
  backend, whose upload succeeds and whose event has a media key, the effects of the
  request begin with the start of the transaction, the upload of the new media and the
  deletion of the old key, before the capacity check, the persistence and the commit. The
  deletion is best-effort: with any other behaviour of the S3 client on deletions, the
  response and the database after the request are the same.
\<close>

theorem old_media_deleted_before_commit:
  "list_all (\<lambda>e. \<not> is_delete e) (after_commit (effects_of w (snd (updateEvent env req w)))) \<and>
   (req_file req = Some file \<and> storageType env = ''s3'' \<and>
    s3_put_error env (''uploads/'' @ randomImageName env) = None \<and>
    db_error env FindEvent = None \<and> existing_event req (db w) = Some ev \<and>
    js_truthy (obj_get (fst ev) ''image'') \<longrightarrow>
      take 3 (effects_of w (snd (updateEvent env req w))) =
        [StartTransaction, S3Put (''uploads/'' @ randomImageName env),
         S3Delete (to_string (engine env) (obj_get (fst ev) ''image''))
           (s3_delete_error env (to_string (engine env) (obj_get (fst ev) ''image'')) = None)]) \<and>
   fst (updateEvent (env\<lparr>s3_delete_error := f\<rparr>) req w) = fst (updateEvent env req w) \<and>
   db (snd (updateEvent (env\<lparr>s3_delete_error := f\<rparr>) req w)) = db (snd (updateEvent env req w))"
proof -
  from ordered_updateEvent[of env req] obtain es where
    "trace (snd (updateEvent env req w)) = trace w @ es"
    "list_all (\<lambda>e. \<not> is_delete e) (after_commit es)"
    unfolding deletes_before_commit_def emits_def by blast
  then have 1: "list_all (\<lambda>e. \<not> is_delete e) (after_commit (effects_of w (snd (updateEvent env req w))))"
    by (simp add: effects_of_def)
  have "agree w w" by (simp add: agree_def)
  with same_updateEvent[of env req f]
  have 3: "fst (updateEvent (env\<lparr>s3_delete_error := f\<rparr>) req w) = fst (updateEvent env req w) \<and>
   db (snd (updateEvent (env\<lparr>s3_delete_error := f\<rparr>) req w)) = db (snd (updateEvent env req w))"
    unfolding same_outcome_def agree_def by metis
  from 1 3 updateEvent_first_effects show ?thesis by blast
qed

theorem old_media_deleted_before_commit_witness:
  "req_file req_media_capacity = Some \<lparr> path = None, mimetype = ''image/png'', buffer = ''PNG'' \<rparr> \<and>
   storageType env_delete_fails = ''s3'' \<and>
   s3_put_error env_delete_fails (''uploads/'' @ randomImageName env_delete_fails) = None \<and>
   db_error env_delete_fails FindEvent = None \<and>
   existing_event req_media_capacity (db world_gala) = Some (event_gala, Some user_ann) \<and>
   js_truthy (obj_get (fst (event_gala, Some user_ann)) ''image'') \<and>
   take 3 (effects_of world_gala (snd (updateEvent env_delete_fails req_media_capacity world_gala))) =
     [StartTransaction, S3Put ''uploads/ab12'', S3Delete ''uploads/old'' False] \<and>
   fst (updateEvent (env_delete_fails\<lparr>s3_delete_error := (\<lambda>k. None)\<rparr>) req_media_capacity world_gala)
     = fst (updateEvent env_delete_fails req_media_capacity world_gala)"
  using old_media_deleted_before_commit[of world_gala env_delete_fails req_media_capacity
      "\<lparr> path = None, mimetype = ''image/png'', buffer = ''PNG'' \<rparr>" "(event_gala, Some user_ann)"
      "\<lambda>k. None"]
  by (simp add: example_defs notion_defs storageType_def randomImageName_def)


text \<open>
  C1 as stated fails: in the update of the example event with a new image, which commits,
  the old key \<open>uploads/old\<close> is deleted before the commit, and from the commit on there
  is the commit, the signing of the new key and the end of the session only. In the
  update with a new image and a capacity over the ceiling, the old key is deleted and the
  transaction is then aborted: the stored event keeps the key, and the bucket no longer
  holds it.
\<close>

theorem old_media_deleted_before_commit_counterexample:
  "S3Delete ''uploads/old'' True
     \<in> set (before_commit (trace (snd (updateEvent env_s3 req_media world_gala)))) \<and>
   CommitTransaction \<in> set (trace (snd (updateEvent env_s3 req_media world_gala))) \<and>
   after_commit (trace (snd (updateEvent env_s3 req_media world_gala)))
     = [CommitTransaction, S3Sign ''uploads/ab12'', EndSession] \<and>
   trace (snd (updateEvent env_s3 req_media_capacity world_gala))
     = [StartTransaction, S3Put ''uploads/ab12'', S3Delete ''uploads/old'' True,
        AbortTransaction, EndSession] \<and>
   map (\<lambda>ev. obj_get ev ''image'') (events (db (snd (updateEvent env_s3 req_media_capacity world_gala))))
     = [JStr ''uploads/old''] \<and>
   ''uploads/old'' \<notin> set (bucket (snd (updateEvent env_s3 req_media_capacity world_gala)))"
  by (simp add: update_defs example_defs notion_defs before_commit_def after_commit_def not_commit_def)

end
